theory Spec2Isabelle
  imports Complex_Main "HOL-Library.Word"
begin

unbundle bit_operations_syntax

section \<open>The chunked resumable upload protocol of CougarFanz\<close>

text \<open>
  The server side is the class \<open>MediaHubClient\<close> of
  \<^verbatim>\<open>src/server/services/unifiedAIGatewayService.ts\<close> (the MediaHub part of that file),
  its HTTP surface is the router of \<^verbatim>\<open>src/shared/monitoring/SelfHealingSystem.ts\<close>
  (the MediaHub routes part), and the client side is the hook \<open>useChunkedUpload\<close> of
  \<^verbatim>\<open>src/unnamed/part_004\<close>.

  Conventions of the embedding.
  \<^item> A JavaScript \<open>number\<close> that holds a count, an index or the size of a \<open>File\<close> is an
    \<open>int\<close>. The \<open>fileSize\<close> that the server reads from a request body is any finite
    number that JSON can carry, a \<open>real\<close> (the value of the double). A quotient is
    computed over the reals, exactly, with two exceptions that are written out: a
    quotient with divisor zero is the value \<open>NaN\<close> or \<open>Infinite\<close> of \<open>js_number\<close>, and a
    quotient too small for a double is zero (\<open>underflows\<close>). The rounding of a quotient
    of magnitude \<open>2 ^ 53\<close> or more is not modelled.
  \<^item> A \<open>Date\<close> is an \<open>int\<close>, the milliseconds since the epoch.
  \<^item> A \<open>Buffer\<close> is a list of bytes, a string a list of characters.
  \<^item> The \<open>Map\<close> of sessions is a partial function from upload ids to sessions; a method
    that mutates \<open>this\<close> returns the new \<open>MediaHubClient\<close> beside its result.
  \<^item> What the code reads from outside is an argument: the readings of the clock and the
    random UUID (\<open>env\<close>), the answer of the central MediaHub service to a \<open>fetch\<close>
    (\<open>fetch_result\<close>), and the library functions of the Node runtime and the process
    environment (\<open>runtime\<close>).
\<close>

subsection \<open>The runtime\<close>

type_synonym byte = "8 word"

text \<open>
  \<open>crypto.createHash('sha256')\<close> and \<open>crypto.createHash('md5')\<close> give digests of 256
  and 128 bits; \<open>Date.prototype.toISOString\<close> prints an instant; \<open>MEDIAHUB_API_KEY\<close> is
  read from the process environment (the empty string when it is not set). None of them
  is code of this repository, so the model takes them as parameters.
\<close>

record runtime =
  sha256 :: "string \<Rightarrow> 256 word"
  md5 :: "byte list \<Rightarrow> 128 word"
  toISOString :: "int \<Rightarrow> string"
  MEDIAHUB_API_KEY :: string

text \<open>What one call reads from outside: \<open>clock k\<close> is what the call reads the
  \<open>k\<close>-th time it reads the clock (\<open>new Date()\<close>, \<open>Date.now()\<close>), counted from zero, and
  \<open>randomUUID\<close> is what \<open>crypto.randomUUID()\<close> gives it. Nothing is assumed of the
  readings: the clock of the system may stand still or be set back between two of
  them.\<close>

record env =
  clock :: "nat \<Rightarrow> int"
  randomUUID :: string

text \<open>The outcome of \<open>await fetch(...)\<close> followed by \<open>await response.json()\<close> inside a
  \<open>try\<close>: an exception (of \<open>fetch\<close> or of \<open>json()\<close>), a response that is not \<open>ok\<close>, or
  the parsed body.\<close>

datatype 'a fetch_result = FetchThrows | FetchNotOk | FetchOk 'a

text \<open>A parsed body on which the code reads a property: \<open>null\<close>, where reading the
  property throws a \<open>TypeError\<close>, or an object, given by what the code reads of it.\<close>

datatype 'a json = Null | Object 'a

text \<open>\<open>digest('hex')\<close>: two lowercase hexadecimal digits per byte, most significant
  first.\<close>

definition hex_digit :: "nat \<Rightarrow> char" where
  "hex_digit n = ''0123456789abcdef'' ! (n mod 16)"

definition digest_hex :: "'a::len word \<Rightarrow> string" where
  "digest_hex w =
     map (\<lambda>i. hex_digit (unat (drop_bit (4 * i) w) mod 16)) (rev [0..<LENGTH('a) div 4])"

text \<open>\<open>String.prototype.toUpperCase\<close> on ASCII letters; every other character is left
  as it is (the code applies it to hexadecimal digits only).\<close>

definition toUpperCase_char :: "char \<Rightarrow> char" where
  "toUpperCase_char c =
     (let n = (of_char c :: nat)
      in if 97 \<le> n \<and> n \<le> 122 then char_of (n - 32) else c)"

definition toUpperCase :: "string \<Rightarrow> string" where
  "toUpperCase s = map toUpperCase_char s"

text \<open>\<open>s.substring(0, n)\<close> for \<open>n \<ge> 0\<close>.\<close>

definition substring0 :: "nat \<Rightarrow> string \<Rightarrow> string" where
  "substring0 n s = take n s"

text \<open>The result of dividing one JavaScript number by another.\<close>

datatype js_number = Finite real | NaN | Infinite

definition js_div :: "int \<Rightarrow> int \<Rightarrow> js_number" where
  "js_div a b =
     (if b = 0 then (if a = 0 then NaN else Infinite)
      else Finite (real_of_int a / real_of_int b))"

definition js_times :: "js_number \<Rightarrow> real \<Rightarrow> js_number" where
  "js_times x k = (case x of Finite r \<Rightarrow> Finite (r * k) | NaN \<Rightarrow> NaN | Infinite \<Rightarrow> Infinite)"

text \<open>\<open>Math.ceil(a / b)\<close> for two integers.\<close>

definition Math_ceil_div :: "int \<Rightarrow> int \<Rightarrow> int" where
  "Math_ceil_div a b = \<lceil>real_of_int a / real_of_int b\<rceil>"

text \<open>
  A quotient of doubles whose magnitude is at most \<open>1 / 2 ^ 1075\<close>, half of the least
  positive double, is rounded to zero. \<open>Math_ceil_quotient a b\<close> is \<open>Math.ceil(a / b)\<close>
  for a number \<open>a\<close> of a request body and the constant \<open>b\<close>: zero when the quotient
  underflows (\<open>Math.ceil\<close> of a zero of either sign), and otherwise the ceiling of the
  quotient.
\<close>

definition underflows :: "real \<Rightarrow> bool" where
  "underflows q = (\<bar>q\<bar> \<le> 1 / 2 ^ 1075)"

definition Math_ceil_quotient :: "real \<Rightarrow> int \<Rightarrow> int" where
  "Math_ceil_quotient a b =
     (let q = a / real_of_int b in if underflows q then 0 else \<lceil>q\<rceil>)"

subsection \<open>The server: data model\<close>

definition platformId_const :: string where
  "platformId_const = ''cougarfanz''"

definition CHUNK_SIZE :: int where
  "CHUNK_SIZE = 5 * 1024 * 1024"

datatype session_status = initializing | in_progress | completing | completed | failed

record UploadSession =
  uploadId :: string
  platformId :: string
  creatorId :: string
  filename :: string
  fileSize :: real
  mimeType :: string
  totalChunks :: int
  completedChunks :: int
  s3Key :: string
  status :: session_status
  forensicSignature :: "string option"
  createdAt :: int
  expiresAt :: int

record ChunkUploadResult =
  success :: bool
  chunkIndex :: int
  etag :: "string option"
  error :: "string option"

datatype processing_status = pending | processing | processing_completed | processing_failed

text \<open>The fields of \<open>MediaAsset\<close> that the code fills in. Those whose names are fields of
  \<open>UploadSession\<close> too carry the prefix \<open>asset_\<close> here. \<open>asset_forensicSignature\<close> is
  \<open>session.forensicSignature!\<close>, which is the session's optional field as it is.\<close>

record MediaAsset =
  asset_id :: string
  asset_platformId :: string
  asset_creatorId :: string
  originalFilename :: string
  fileHash :: string
  asset_fileSize :: real
  asset_mimeType :: string
  asset_forensicSignature :: "string option"
  processingStatus :: processing_status
  asset_createdAt :: int

record MediaHubClient =
  isConnected :: bool
  uploadSessions :: "string \<rightharpoonup> UploadSession"

datatype js_error = Error string

text \<open>\<open>this.isConnected && MEDIAHUB_API_KEY\<close>: a string is truthy when it is not
  empty.\<close>

definition use_central :: "runtime \<Rightarrow> MediaHubClient \<Rightarrow> bool" where
  "use_central rt c = (isConnected c \<and> MEDIAHUB_API_KEY rt \<noteq> [])"

subsection \<open>The server: operations\<close>

text \<open>\<open>generateForensicSignature(data)\<close>; \<open>data.timestamp || new Date()\<close> is the given
  timestamp when there is one (a \<open>Date\<close> object is truthy) and otherwise the clock, which
  is read here for the first time in the call.\<close>

definition generateForensicSignature :: "runtime \<Rightarrow> env \<Rightarrow> string \<Rightarrow> int option \<Rightarrow> string" where
  "generateForensicSignature rt e creator timestamp =
     (let ts = (case timestamp of Some t \<Rightarrow> t | None \<Rightarrow> clock e 0);
          payload = creator @ ''|'' @ platformId_const @ ''|'' @ toISOString rt ts;
          hash = digest_hex (sha256 rt payload)
      in ''FANZ-'' @ toUpperCase (substring0 16 hash))"

text \<open>
  \<open>initializeUpload(metadata)\<close>, the metadata given field by field. The fourth
  argument is the answer of the central service, read only when the client is
  connected; on the body \<open>null\<close> the code throws at \<open>session.uploadId\<close> inside the \<open>try\<close>,
  before it touches the store, and goes on to the local fallback. The call reads the
  clock three times: for the timestamp of the signature, then for \<open>createdAt\<close>
  (\<open>new Date()\<close>), then for \<open>expiresAt\<close> (\<open>Date.now()\<close>).
\<close>

definition initializeUpload ::
  "runtime \<Rightarrow> env \<Rightarrow> UploadSession json fetch_result \<Rightarrow> MediaHubClient \<Rightarrow>
   string \<Rightarrow> real \<Rightarrow> string \<Rightarrow> string \<Rightarrow> UploadSession \<times> MediaHubClient" where
  "initializeUpload rt e remote c fname fsize mime creator =
     (let uid = randomUUID e;
          count = Math_ceil_quotient fsize CHUNK_SIZE;
          signature = generateForensicSignature rt e creator None;
          local =
            \<lparr>uploadId = uid, platformId = platformId_const, creatorId = creator,
             filename = fname, fileSize = fsize, mimeType = mime,
             totalChunks = count, completedChunks = 0,
             s3Key = ''uploads/'' @ platformId_const @ ''/'' @ uid @ ''/'' @ fname,
             status = in_progress, forensicSignature = Some signature,
             createdAt = clock e 1, expiresAt = clock e 2 + 24 * 60 * 60 * 1000\<rparr>
      in if use_central rt c then
           (case remote of
              FetchOk (Object session) \<Rightarrow>
                (session, c\<lparr>uploadSessions := (uploadSessions c)(uploadId session \<mapsto> session)\<rparr>)
            | _ \<Rightarrow> (local, c\<lparr>uploadSessions := (uploadSessions c)(uid \<mapsto> local)\<rparr>))
         else (local, c\<lparr>uploadSessions := (uploadSessions c)(uid \<mapsto> local)\<rparr>))"

text \<open>
  \<open>uploadChunk(uploadId, chunkIndex, chunkData)\<close>. On the central path, after a response
  that is \<open>ok\<close> and a body that parses, the code adds one to \<open>completedChunks\<close> and then
  reads \<open>result.etag\<close>. Read on an object, that is the etag of the result (\<open>None\<close> when
  the object has none). Read on the body \<open>null\<close>, it throws, inside the \<open>try\<close> and after
  the counter was raised; the exception is caught and the local fallback raises the
  counter once more. Every other failure of the central call (\<open>fetch\<close> or \<open>json()\<close>
  throws, or the response is not \<open>ok\<close>) happens before the counter is touched and leads
  to the local fallback.
\<close>

definition uploadChunk ::
  "runtime \<Rightarrow> string option json fetch_result \<Rightarrow> MediaHubClient \<Rightarrow>
   string \<Rightarrow> int \<Rightarrow> byte list \<Rightarrow> ChunkUploadResult \<times> MediaHubClient" where
  "uploadChunk rt remote c uid idx chunkData =
     (case uploadSessions c uid of
        None \<Rightarrow>
          (\<lparr>success = False, chunkIndex = idx, etag = None, error = Some ''Session not found''\<rparr>, c)
      | Some session \<Rightarrow>
          (let bumped = session\<lparr>completedChunks := completedChunks session + 1\<rparr>;
               c' = c\<lparr>uploadSessions := (uploadSessions c)(uid \<mapsto> bumped)\<rparr>;
               bumped_twice = bumped\<lparr>completedChunks := completedChunks bumped + 1\<rparr>;
               c'' = c\<lparr>uploadSessions := (uploadSessions c)(uid \<mapsto> bumped_twice)\<rparr>;
               local = \<lparr>success = True, chunkIndex = idx,
                        etag = Some (digest_hex (md5 rt chunkData)), error = None\<rparr>
           in if use_central rt c then
                (case remote of
                   FetchOk (Object tag) \<Rightarrow>
                     (\<lparr>success = True, chunkIndex = idx, etag = tag, error = None\<rparr>, c')
                 | FetchOk Null \<Rightarrow> (local, c'')
                 | _ \<Rightarrow> (local, c'))
              else (local, c')))"

text \<open>\<open>completeUpload(uploadId)\<close>, which reads the clock once and returns the body of
  the central answer as it is (no property of it is read). The exception is the left
  summand; nothing has been
  mutated when it is thrown. The session object whose status is set is deleted from the
  map on every path that returns.\<close>

definition completeUpload ::
  "runtime \<Rightarrow> env \<Rightarrow> MediaAsset fetch_result \<Rightarrow> MediaHubClient \<Rightarrow>
   string \<Rightarrow> (js_error + MediaAsset) \<times> MediaHubClient" where
  "completeUpload rt e remote c uid =
     (case uploadSessions c uid of
        None \<Rightarrow> (Inl (Error ''Upload session not found''), c)
      | Some session \<Rightarrow>
          (let deleted = c\<lparr>uploadSessions := (uploadSessions c)(uid := None)\<rparr>;
               asset =
                 \<lparr>asset_id = randomUUID e, asset_platformId = platformId_const,
                  asset_creatorId = creatorId session, originalFilename = filename session,
                  fileHash = digest_hex (sha256 rt uid),
                  asset_fileSize = fileSize session, asset_mimeType = mimeType session,
                  asset_forensicSignature = forensicSignature session,
                  processingStatus = pending, asset_createdAt = clock e 0\<rparr>
           in if use_central rt c then
                (case remote of
                   FetchOk central_asset \<Rightarrow> (Inr central_asset, deleted)
                 | _ \<Rightarrow> (Inr asset, deleted))
              else (Inr asset, deleted)))"

text \<open>\<open>getUploadProgress(uploadId)\<close>: \<open>null\<close> is \<open>None\<close>, the object is the pair of its
  \<open>progress\<close> and its \<open>status\<close>. It takes the client and returns no client: it has no
  assignment.\<close>

definition getUploadProgress :: "MediaHubClient \<Rightarrow> string \<Rightarrow> (js_number \<times> session_status) option" where
  "getUploadProgress c uid =
     (case uploadSessions c uid of
        None \<Rightarrow> None
      | Some session \<Rightarrow>
          Some (js_times (js_div (completedChunks session) (totalChunks session)) 100,
                status session))"

text \<open>\<open>resumeUpload(uploadId)\<close>.\<close>

definition resumeUpload :: "MediaHubClient \<Rightarrow> string \<Rightarrow> (int \<times> UploadSession) option" where
  "resumeUpload c uid =
     (case uploadSessions c uid of
        None \<Rightarrow> None
      | Some session \<Rightarrow>
          if status session \<noteq> in_progress then None
          else Some (completedChunks session, session))"

subsection \<open>The server: the route that opens a session\<close>

text \<open>
  \<open>router.post('/upload/init', isAuthenticated, ...)\<close>, after authentication. The three
  fields read from \<open>req.body\<close> are of the types the client sends (a string, a number, a
  string) or absent (\<open>None\<close>); the number is any finite number, whole or not, of either
  sign. \<open>!x\<close> holds of an absent field, of the empty string and of the number zero.
\<close>

record init_body =
  body_filename :: "string option"
  body_fileSize :: "real option"
  body_mimeType :: "string option"

record init_data =
  data_uploadId :: string
  data_chunkSize :: int
  data_totalChunks :: int
  data_forensicSignature :: "string option"
  data_expiresAt :: int

datatype init_response = HttpError nat string | HttpOk init_data

definition upload_init_route ::
  "runtime \<Rightarrow> env \<Rightarrow> UploadSession json fetch_result \<Rightarrow> MediaHubClient \<Rightarrow>
   init_body \<Rightarrow> string \<Rightarrow> init_response \<times> MediaHubClient" where
  "upload_init_route rt e remote c body userId =
     (case (body_filename body, body_fileSize body, body_mimeType body) of
        (Some fname, Some fsize, Some mime) \<Rightarrow>
          if fname = [] \<or> fsize = 0 \<or> mime = [] then
            (HttpError 400 ''Missing required fields: filename, fileSize, mimeType'', c)
          else if fsize > 10 * 1024 * 1024 * 1024 then
            (HttpError 400 ''File too large. Maximum size is 10GB.'', c)
          else
            (case initializeUpload rt e remote c fname fsize mime userId of
               (session, c') \<Rightarrow>
                 (HttpOk \<lparr>data_uploadId = uploadId session, data_chunkSize = CHUNK_SIZE,
                          data_totalChunks = totalChunks session,
                          data_forensicSignature = forensicSignature session,
                          data_expiresAt = expiresAt session\<rparr>, c'))
      | _ \<Rightarrow> (HttpError 400 ''Missing required fields: filename, fileSize, mimeType'', c))"

subsection \<open>The client: \<open>useChunkedUpload\<close>\<close>

text \<open>
  The hook's functions that have a namesake on the server carry the prefix \<open>client_\<close>.
  What the network answers is an argument. The model leaves out the React state that
  only the user interface reads (progress, toasts), the waiting while the upload is
  paused and the delays of the backoff: they change when a request is sent, not which
  requests are sent.
\<close>

definition DEFAULT_CHUNK_SIZE :: int where
  "DEFAULT_CHUNK_SIZE = 5 * 1024 * 1024"

definition MAX_PARALLEL_CHUNKS :: int where
  "MAX_PARALLEL_CHUNKS = 4"

definition MAX_RETRIES :: nat where
  "MAX_RETRIES = 3"

record UploadConfig =
  chunkSize :: int
  maxParallelChunks :: int

text \<open>What is thrown inside \<open>uploadFile\<close>: the \<open>AbortError\<close> of a cancelled \<open>fetch\<close>,
  \<open>Error(`Chunk ${chunkIndex} failed after ${MAX_RETRIES} retries`)\<close>, or an \<open>Error\<close> with
  another message.\<close>

datatype upload_error = AbortError | ChunkFailed int | OtherError string

text \<open>One \<open>fetch\<close> of a chunk: a response that is \<open>ok\<close>, a response that is not, an
  exception of the transport, or the abort.\<close>

datatype attempt = ResponseOk | ResponseNotOk | TransportError | Aborted

text \<open>A request of the client that answers with JSON: \<open>fetch\<close> throws, or the response
  is not \<open>ok\<close> and carries \<open>errorData.error\<close>, or it is \<open>ok\<close> and carries \<open>data.data\<close>.\<close>

datatype 'a response = Thrown upload_error | NotOk "string option" | Ok 'a

text \<open>\<open>fetchConfig\<close>: \<open>x || d\<close> is \<open>d\<close> when the number \<open>x\<close> is zero; the configuration
  in \<open>configRef\<close> stays as it is when the request fails.\<close>

definition fetchConfig :: "(int \<times> int) fetch_result \<Rightarrow> UploadConfig \<Rightarrow> UploadConfig" where
  "fetchConfig answer current =
     (case answer of
        FetchOk (cs, mp) \<Rightarrow>
          \<lparr>chunkSize = (if cs = 0 then DEFAULT_CHUNK_SIZE else cs),
           maxParallelChunks = (if mp = 0 then MAX_PARALLEL_CHUNKS else mp)\<rparr>
      | _ \<Rightarrow> current)"

definition or_default :: "string option \<Rightarrow> string \<Rightarrow> string" where
  "or_default m d = (case m of None \<Rightarrow> d | Some s \<Rightarrow> if s = [] then d else s)"

record client_session =
  session_uploadId :: string
  session_totalChunks :: int

definition client_initializeUpload :: "client_session response \<Rightarrow> upload_error + client_session" where
  "client_initializeUpload answer =
     (case answer of
        Thrown err \<Rightarrow> Inl err
      | NotOk msg \<Rightarrow> Inl (OtherError (or_default msg ''Failed to initialize upload''))
      | Ok session \<Rightarrow> Inr session)"

definition client_completeUpload :: "'r response \<Rightarrow> upload_error + 'r" where
  "client_completeUpload answer =
     (case answer of
        Thrown err \<Rightarrow> Inl err
      | NotOk msg \<Rightarrow> Inl (OtherError (or_default msg ''Failed to complete upload''))
      | Ok r \<Rightarrow> Inr r)"

text \<open>
  \<open>uploadChunk(uploadId, chunkIndex, chunkData, signal)\<close> of the client: the loop
  \<open>while (retries < MAX_RETRIES)\<close>, from a value of \<open>retries\<close> on. Every attempt that
  does not return adds one to \<open>retries\<close>, so the attempt made when the counter is \<open>retries\<close>
  is attempt number \<open>retries\<close>, whose outcome is \<open>net retries\<close>. The result is the
  returned boolean, or what is thrown.
\<close>

function client_uploadChunk_from :: "int \<Rightarrow> (nat \<Rightarrow> attempt) \<Rightarrow> nat \<Rightarrow> upload_error + bool" where
  "client_uploadChunk_from idx net retries =
     (if retries < MAX_RETRIES then
        (case net retries of
           ResponseOk \<Rightarrow> Inr True
         | ResponseNotOk \<Rightarrow> client_uploadChunk_from idx net (retries + 1)
         | Aborted \<Rightarrow> Inl AbortError
         | TransportError \<Rightarrow>
             if retries + 1 \<ge> MAX_RETRIES then Inl (ChunkFailed idx)
             else client_uploadChunk_from idx net (retries + 1))
      else Inr False)"
  by pat_completeness auto
termination
  by (relation "measure (\<lambda>(idx, net, retries). MAX_RETRIES - retries)") auto

definition client_uploadChunk :: "int \<Rightarrow> (nat \<Rightarrow> attempt) \<Rightarrow> upload_error + bool" where
  "client_uploadChunk idx net = client_uploadChunk_from idx net 0"

text \<open>The chunks array of \<open>uploadFile\<close>: \<open>for (let i = 0; i < totalChunks; i++)\<close>.\<close>

record chunk =
  chunk_index :: int
  chunk_start :: int
  chunk_end :: int

definition make_chunks :: "int \<Rightarrow> int \<Rightarrow> int \<Rightarrow> chunk list" where
  "make_chunks count csize fsize =
     map (\<lambda>i. \<lparr>chunk_index = int i, chunk_start = int i * csize,
                chunk_end = min (int i * csize + csize) fsize\<rparr>) [0..<nat count]"

text \<open>The inner loop of the pool: \<open>while (chunkQueue.length > 0 && activeUploads.length <
  maxParallelChunks)\<close> moves the head of the queue to the end of the active uploads.\<close>

fun fill :: "int \<Rightarrow> chunk list \<Rightarrow> chunk list \<Rightarrow> chunk list \<times> chunk list" where
  "fill mp [] active = ([], active)"
| "fill mp (c # queue) active =
     (if int (length active) < mp then fill mp queue (active @ [c]) else (c # queue, active))"

lemma fill_length: "fill mp queue active = (queue', active') \<Longrightarrow>
    length queue' + length active' = length queue + length active"
  by (induction queue arbitrary: active) (auto split: if_splits)

lemma pool_measure:
  assumes "(queue', active') = fill mp queue active" and "active' \<noteq> []"
  shows "length queue' + (r mod length active' + (length active' - Suc (r mod length active')))
           < length queue + length active"
proof -
  from assms(1) have "length queue' + length active' = length queue + length active"
    using fill_length [of mp queue active queue' active'] by simp
  moreover from assms(2) have "r mod length active' < length active'" by simp
  ultimately show ?thesis by linarith
qed

text \<open>
  The outer loop of the pool, \<open>while (chunkQueue.length > 0 || activeUploads.length > 0)\<close>.
  \<open>race\<close> says which of the active uploads settles first, by its position (taken modulo
  their number); \<open>net i\<close> is what the network answers to the attempts for chunk \<open>i\<close>. An
  upload that settles by returning (whatever boolean it returns) leaves the active
  uploads and counts in \<open>completedChunks\<close>; one that settles by throwing rejects the
  \<open>Promise.race\<close>, which ends the loop with what was thrown. With nothing in flight and
  a queue that cannot be launched (\<open>maxParallelChunks \<le> 0\<close>) the source loops for ever:
  the result is \<open>None\<close>.
\<close>

function pool ::
  "(chunk list \<Rightarrow> nat) \<Rightarrow> (int \<Rightarrow> nat \<Rightarrow> attempt) \<Rightarrow> int \<Rightarrow>
   chunk list \<Rightarrow> chunk list \<Rightarrow> int \<Rightarrow> (upload_error + int) option" where
  "pool race net mp queue active n =
     (if queue = [] \<and> active = [] then Some (Inr n)
      else
        (case fill mp queue active of
           (queue', active') \<Rightarrow>
             if active' = [] then None
             else
               let i = race active' mod length active'; c = active' ! i
               in (case client_uploadChunk (chunk_index c) (net (chunk_index c)) of
                     Inl err \<Rightarrow> Some (Inl err)
                   | Inr ok \<Rightarrow>
                       pool race net mp queue' (take i active' @ drop (Suc i) active') (n + 1))))"
  by pat_completeness auto
termination
  apply (relation "measure (\<lambda>(race, net, mp, queue, active, n). length queue + length active)")
   apply simp
  apply (auto intro!: pool_measure)
  done

declare client_uploadChunk_from.simps [simp del]
declare pool.simps [simp del]

text \<open>The number of bytes of \<open>file.slice(from, to)\<close> for a file of \<open>fsize\<close> bytes
  (\<open>Blob.prototype.slice\<close>: a negative position counts from the end, every position is
  clamped to the file).\<close>

definition slice_size :: "int \<Rightarrow> int \<Rightarrow> int \<Rightarrow> int" where
  "slice_size fsize from to =
     (let relativeStart = (if from < 0 then max (fsize + from) 0 else min from fsize);
          relativeEnd = (if to < 0 then max (fsize + to) 0 else min to fsize)
      in max (relativeEnd - relativeStart) 0)"

text \<open>
  What \<open>uploadFile\<close> returns (\<open>null\<close> is \<open>None\<close>), the error it catches, and whether the
  request \<open>POST /upload/:uploadId/complete\<close> was sent.
\<close>

record 'r upload_report =
  returned :: "'r option"
  caught :: "upload_error option"
  completeIssued :: bool

text \<open>\<open>uploadFile(file, metadata)\<close> for a file of \<open>fsize\<close> bytes: the configuration is
  fetched, the session opened, the chunks made and sent through the pool, and the
  completion requested when the pool has ended without an exception. \<open>None\<close>: it never
  returns.\<close>

definition uploadFile ::
  "(int \<times> int) fetch_result \<Rightarrow> UploadConfig \<Rightarrow> client_session response \<Rightarrow>
   (chunk list \<Rightarrow> nat) \<Rightarrow> (int \<Rightarrow> nat \<Rightarrow> attempt) \<Rightarrow> 'r response \<Rightarrow> int \<Rightarrow>
   'r upload_report option" where
  "uploadFile configAnswer configRef initAnswer race net completeAnswer fsize =
     (let config = fetchConfig configAnswer configRef
      in case client_initializeUpload initAnswer of
           Inl err \<Rightarrow> Some \<lparr>returned = None, caught = Some err, completeIssued = False\<rparr>
         | Inr session \<Rightarrow>
             (case pool race net (maxParallelChunks config)
                     (make_chunks (session_totalChunks session) (chunkSize config) fsize) [] 0 of
                None \<Rightarrow> None
              | Some (Inl err) \<Rightarrow>
                  Some \<lparr>returned = None, caught = Some err, completeIssued = False\<rparr>
              | Some (Inr n) \<Rightarrow>
                  (case client_completeUpload completeAnswer of
                     Inl err \<Rightarrow> Some \<lparr>returned = None, caught = Some err, completeIssued = True\<rparr>
                   | Inr r \<Rightarrow> Some \<lparr>returned = Some r, caught = None, completeIssued = True\<rparr>)))"

subsection \<open>Runs and examples\<close>

text \<open>A run of \<open>uploadChunk\<close> calls for one upload id, each with the answer of the
  central service, its chunk index and its bytes.\<close>

fun uploadChunks ::
  "runtime \<Rightarrow> MediaHubClient \<Rightarrow> string \<Rightarrow>
   (string option json fetch_result \<times> int \<times> byte list) list \<Rightarrow> MediaHubClient" where
  "uploadChunks rt c uid [] = c"
| "uploadChunks rt c uid ((remote, idx, chunkData) # calls) =
     uploadChunks rt (snd (uploadChunk rt remote c uid idx chunkData)) uid calls"

text \<open>What one \<open>uploadChunk\<close> adds to the counter of a session of the store.\<close>

definition counted :: "runtime \<Rightarrow> string option json fetch_result \<Rightarrow> MediaHubClient \<Rightarrow> int" where
  "counted rt remote c = (if use_central rt c \<and> remote = FetchOk Null then 2 else 1)"

text \<open>A session of three chunks of which two have been accepted.\<close>

definition two_of_three :: UploadSession where
  "two_of_three =
     \<lparr>uploadId = ''u1'', platformId = ''cougarfanz'', creatorId = ''creator-1'',
      filename = ''clip.mp4'', fileSize = 12 * 1024 * 1024, mimeType = ''video/mp4'',
      totalChunks = 3, completedChunks = 2, s3Key = ''uploads/cougarfanz/u1/clip.mp4'',
      status = in_progress, forensicSignature = Some ''FANZ-0123456789ABCDEF'',
      createdAt = 1000, expiresAt = 86401000\<rparr>"

section \<open>Lemmas on the operations\<close>

lemma Math_ceil_div_int: "Math_ceil_div a b = - ((- a) div b)"
  by (simp add: Math_ceil_div_def ceiling_divide_eq_div)

text \<open>The numbers behind \<open>Math_ceil_quotient\<close>: a quotient by \<open>CHUNK_SIZE\<close> of a number of
  magnitude one or more does not underflow, so that on whole numbers the two ceilings
  agree.\<close>

lemma CHUNK_SIZE_threshold: "1 / 2 ^ 1075 < 1 / (5242880 :: real)"
proof -
  have "(5242880 :: real) < 2 ^ 23" by simp
  also have "(2 :: real) ^ 23 \<le> 2 ^ 1075" by (rule power_increasing) simp_all
  finally have "(5242880 :: real) < 2 ^ 1075" .
  then show ?thesis by (simp add: frac_less2)
qed

lemma no_underflow:
  assumes "1 \<le> \<bar>x\<bar>"
  shows "\<not> underflows (x / real_of_int CHUNK_SIZE)"
proof -
  have "1 / (5242880 :: real) \<le> \<bar>x\<bar> / 5242880"
    using assms by (simp add: divide_right_mono)
  with CHUNK_SIZE_threshold have "1 / 2 ^ 1075 < \<bar>x\<bar> / 5242880" by (rule less_le_trans)
  then show ?thesis by (simp add: underflows_def CHUNK_SIZE_def)
qed

lemma Math_ceil_quotient_exact:
  "1 \<le> \<bar>x\<bar> \<Longrightarrow> Math_ceil_quotient x CHUNK_SIZE = \<lceil>x / real_of_int CHUNK_SIZE\<rceil>"
  by (simp add: Math_ceil_quotient_def Let_def no_underflow)

lemma Math_ceil_quotient_int:
  "Math_ceil_quotient (real_of_int a) CHUNK_SIZE = Math_ceil_div a CHUNK_SIZE"
proof (cases "a = 0")
  case True
  then show ?thesis by (simp add: Math_ceil_quotient_def Math_ceil_div_def Let_def)
next
  case False
  then have "1 \<le> \<bar>real_of_int a\<bar>" by (simp flip: of_int_abs)
  then show ?thesis by (simp add: Math_ceil_quotient_exact Math_ceil_div_def)
qed

lemma Math_ceil_quotient_pos:
  assumes "1 \<le> x"
  shows "1 \<le> Math_ceil_quotient x CHUNK_SIZE"
proof -
  from assms have "1 \<le> \<bar>x\<bar>" by simp
  then have "Math_ceil_quotient x CHUNK_SIZE = \<lceil>x / real_of_int CHUNK_SIZE\<rceil>"
    by (rule Math_ceil_quotient_exact)
  moreover from assms have "0 < x / real_of_int CHUNK_SIZE" by (simp add: CHUNK_SIZE_def)
  then have "1 \<le> \<lceil>x / real_of_int CHUNK_SIZE\<rceil>" by (simp add: ceiling_le_iff less_ceiling_iff)
  ultimately show ?thesis by simp
qed

lemma ceil_one_byte: "Math_ceil_quotient 1 CHUNK_SIZE = 1"
  using Math_ceil_quotient_int [of 1] by (simp add: Math_ceil_div_int CHUNK_SIZE_def)

lemma ceil_minus_one: "Math_ceil_quotient (- 1) CHUNK_SIZE = 0"
  using Math_ceil_quotient_int [of "- 1"] by (simp add: Math_ceil_div_int CHUNK_SIZE_def)

lemma ceil_12_MiB: "Math_ceil_quotient 12582912 CHUNK_SIZE = 3"
  using Math_ceil_quotient_int [of 12582912] by (simp add: Math_ceil_div_int CHUNK_SIZE_def)

text \<open>The least positive double, \<open>1 / 2 ^ 1074\<close>, divided by \<open>CHUNK_SIZE\<close> underflows: the
  route takes it for a \<open>fileSize\<close> and opens a session of no chunks.\<close>

lemma least_double_underflows: "underflows ((1 / 2 ^ 1074) / real_of_int CHUNK_SIZE)"
proof -
  have "(2 :: real) ^ 1075 = 2 ^ 1074 * 2" by simp
  also have "\<dots> \<le> 2 ^ 1074 * 5242880" by (intro mult_left_mono) simp_all
  finally have "1 / (2 ^ 1074 * 5242880) \<le> 1 / (2 :: real) ^ 1075"
    by (intro divide_left_mono) simp_all
  then show ?thesis by (simp add: underflows_def CHUNK_SIZE_def)
qed

lemma counted_range: "1 \<le> counted rt remote c" "counted rt remote c \<le> 2"
  by (simp_all add: counted_def)

lemma counted_local: "\<not> isConnected c \<Longrightarrow> counted rt remote c = 1"
  by (simp add: counted_def use_central_def)

lemma uploadChunk_present:
  assumes "uploadSessions c uid = Some s"
  shows "success (fst (uploadChunk rt remote c uid idx chunkData))"
    and "chunkIndex (fst (uploadChunk rt remote c uid idx chunkData)) = idx"
    and "error (fst (uploadChunk rt remote c uid idx chunkData)) = None"
    and "snd (uploadChunk rt remote c uid idx chunkData) =
           c\<lparr>uploadSessions := (uploadSessions c)
               (uid \<mapsto> s\<lparr>completedChunks := completedChunks s + counted rt remote c\<rparr>)\<rparr>"
  using assms
  by (simp_all add: uploadChunk_def Let_def counted_def add.commute split: fetch_result.split json.split)

lemma uploadChunk_isConnected:
  "isConnected (snd (uploadChunk rt remote c uid idx chunkData)) = isConnected c"
  by (simp add: uploadChunk_def Let_def split: option.split fetch_result.split json.split)

lemma uploadChunks_isConnected:
  "isConnected (uploadChunks rt c uid calls) = isConnected c"
proof (induction calls arbitrary: c)
  case Nil
  show ?case by simp
next
  case (Cons call calls)
  obtain remote idx chunkData where call: "call = (remote, idx, chunkData)"
    by (cases call) auto
  show ?case
    unfolding call uploadChunks.simps Cons.IH by (rule uploadChunk_isConnected)
qed

text \<open>A run of calls counts every call once at least and twice at most.\<close>

lemma uploadChunks_counts:
  "uploadSessions c uid = Some s \<Longrightarrow>
   \<exists>k. length calls \<le> k \<and> k \<le> 2 * length calls \<and>
       uploadSessions (uploadChunks rt c uid calls) uid =
         Some (s\<lparr>completedChunks := completedChunks s + int k\<rparr>)"
proof (induction calls arbitrary: c s)
  case Nil
  then show ?case by simp
next
  case (Cons call calls)
  obtain remote idx chunkData where call: "call = (remote, idx, chunkData)"
    by (cases call) auto
  let ?c' = "snd (uploadChunk rt remote c uid idx chunkData)"
  let ?s' = "s\<lparr>completedChunks := completedChunks s + counted rt remote c\<rparr>"
  obtain j where j: "counted rt remote c = int j" "1 \<le> j" "j \<le> 2"
    using counted_range [of rt remote c] by (cases "counted rt remote c") auto
  have "uploadSessions ?c' uid = Some ?s'"
    using uploadChunk_present(4) [OF Cons.prems] by simp
  from Cons.IH [OF this] obtain k where k: "length calls \<le> k" "k \<le> 2 * length calls"
    and run: "uploadSessions (uploadChunks rt ?c' uid calls) uid =
         Some (?s'\<lparr>completedChunks := completedChunks ?s' + int k\<rparr>)"
    by blast
  have "uploadSessions (uploadChunks rt c uid (call # calls)) uid =
         Some (s\<lparr>completedChunks := completedChunks s + int (j + k)\<rparr>)"
    using run j(1) by (simp add: call algebra_simps)
  moreover have "length (call # calls) \<le> j + k" "j + k \<le> 2 * length (call # calls)"
    using k j by simp_all
  ultimately show ?case by blast
qed

text \<open>On the local path a run of \<open>n\<close> calls counts \<open>n\<close>.\<close>

lemma uploadChunks_present:
  "uploadSessions c uid = Some s \<Longrightarrow> \<not> isConnected c \<Longrightarrow>
   uploadSessions (uploadChunks rt c uid calls) uid =
     Some (s\<lparr>completedChunks := completedChunks s + int (length calls)\<rparr>)"
proof (induction calls arbitrary: c s)
  case Nil
  then show ?case by simp
next
  case (Cons call calls)
  obtain remote idx chunkData where call: "call = (remote, idx, chunkData)"
    by (cases call) auto
  let ?c' = "snd (uploadChunk rt remote c uid idx chunkData)"
  let ?s' = "s\<lparr>completedChunks := completedChunks s + 1\<rparr>"
  have "uploadSessions ?c' uid = Some ?s'"
    using uploadChunk_present(4) [OF Cons.prems(1)] counted_local [OF Cons.prems(2)] by simp
  moreover have "\<not> isConnected ?c'"
    using Cons.prems(2) by (simp add: uploadChunk_isConnected)
  ultimately show ?case
    using Cons.IH [of ?c' ?s'] by (simp add: call algebra_simps)
qed

lemma completeUpload_frame:
  "u \<noteq> uid \<Longrightarrow> uploadSessions (snd (completeUpload rt e remote c uid)) u = uploadSessions c u"
  by (simp add: completeUpload_def Let_def split: option.split fetch_result.split)

lemma initializeUpload_registers:
  "initializeUpload rt e remote c fname fsize mime creator = (session, c') \<Longrightarrow>
   uploadSessions c' = (uploadSessions c)(uploadId session \<mapsto> session)"
  by (auto simp: initializeUpload_def Let_def split: if_splits fetch_result.splits json.splits)

text \<open>The local fallback of \<open>initializeUpload\<close>, which a client that is not connected
  always takes.\<close>

lemma initializeUpload_local:
  "\<not> isConnected c \<Longrightarrow>
   initializeUpload rt e remote c fname fsize mime creator =
     (\<lparr>uploadId = randomUUID e, platformId = platformId_const, creatorId = creator,
       filename = fname, fileSize = fsize, mimeType = mime,
       totalChunks = Math_ceil_quotient fsize CHUNK_SIZE, completedChunks = 0,
       s3Key = ''uploads/'' @ platformId_const @ ''/'' @ randomUUID e @ ''/'' @ fname,
       status = in_progress,
       forensicSignature = Some (generateForensicSignature rt e creator None),
       createdAt = clock e 1, expiresAt = clock e 2 + 86400000\<rparr>,
      c\<lparr>uploadSessions := (uploadSessions c)(randomUUID e \<mapsto>
       \<lparr>uploadId = randomUUID e, platformId = platformId_const, creatorId = creator,
       filename = fname, fileSize = fsize, mimeType = mime,
       totalChunks = Math_ceil_quotient fsize CHUNK_SIZE, completedChunks = 0,
       s3Key = ''uploads/'' @ platformId_const @ ''/'' @ randomUUID e @ ''/'' @ fname,
       status = in_progress,
       forensicSignature = Some (generateForensicSignature rt e creator None),
       createdAt = clock e 1, expiresAt = clock e 2 + 86400000\<rparr>)\<rparr>)"
  by (simp add: initializeUpload_def Let_def use_central_def)

lemma least_double_opens_empty_session:
  "\<not> isConnected c \<Longrightarrow>
   \<exists>d c'. upload_init_route rt e remote c
        \<lparr>body_filename = Some ''a.bin'', body_fileSize = Some (1 / 2 ^ 1074),
         body_mimeType = Some ''application/octet-stream''\<rparr> userId = (HttpOk d, c')
      \<and> data_totalChunks d = 0"
proof -
  have small: "(1 :: real) / 2 ^ 1074 \<le> 1" by (simp add: divide_le_eq_1)
  then have "\<not> 10 * 1024 * 1024 * 1024 < (1 :: real) / 2 ^ 1074" by linarith
  moreover have "Math_ceil_quotient (1 / 2 ^ 1074) CHUNK_SIZE = 0"
    using least_double_underflows by (simp add: Math_ceil_quotient_def Let_def)
  ultimately show ?thesis
    if "\<not> isConnected c"
    using that by (simp add: upload_init_route_def initializeUpload_local)
qed

lemma hex_digit_lower: "hex_digit n \<in> set ''0123456789abcdef''"
proof -
  have "n mod 16 < length ''0123456789abcdef''" by simp
  then show ?thesis unfolding hex_digit_def by (rule nth_mem)
qed

lemma toUpperCase_hex_digits:
  "map toUpperCase_char ''0123456789abcdef'' = ''0123456789ABCDEF''"
  by code_simp

lemma toUpperCase_char_hex:
  assumes "c \<in> set ''0123456789abcdef''"
  shows "toUpperCase_char c \<in> set ''0123456789ABCDEF''"
proof -
  from assms have "toUpperCase_char c \<in> set (map toUpperCase_char ''0123456789abcdef'')"
    by (simp only: set_map image_eqI)
  then show ?thesis by (simp only: toUpperCase_hex_digits)
qed

lemma length_digest_hex: "length (digest_hex (w :: 'a::len word)) = LENGTH('a) div 4"
  by (simp add: digest_hex_def)

lemma set_digest_hex: "set (digest_hex w) \<subseteq> set ''0123456789abcdef''"
  unfolding digest_hex_def using hex_digit_lower by (auto simp del: set_simps)

lemma completeUpload_local:
  assumes "uploadSessions c uid = Some s" and "\<not> isConnected c"
  shows "completeUpload rt e remote c uid =
    (Inr \<lparr>asset_id = randomUUID e, asset_platformId = platformId_const,
          asset_creatorId = creatorId s, originalFilename = filename s,
          fileHash = digest_hex (sha256 rt uid),
          asset_fileSize = fileSize s, asset_mimeType = mimeType s,
          asset_forensicSignature = forensicSignature s,
          processingStatus = pending, asset_createdAt = clock e 0\<rparr>,
     c\<lparr>uploadSessions := (uploadSessions c)(uid := None)\<rparr>)"
  using assms by (simp add: completeUpload_def use_central_def Let_def)

lemma Math_ceil_div_bounds:
  assumes "0 < b"
  shows "(Math_ceil_div a b - 1) * b < a" and "a \<le> Math_ceil_div a b * b"
proof -
  have eq: "(- a) div b * b + (- a) mod b = - a" by (rule div_mult_mod_eq)
  have r: "0 \<le> (- a) mod b" "(- a) mod b < b" using assms by simp_all
  have "Math_ceil_div a b * b = - ((- a) div b * b)"
    by (simp add: Math_ceil_div_int)
  also have "\<dots> = a + (- a) mod b" using eq by linarith
  finally have m: "Math_ceil_div a b * b = a + (- a) mod b" .
  have "(Math_ceil_div a b - 1) * b = Math_ceil_div a b * b - b"
    by (simp add: algebra_simps)
  with m r show "(Math_ceil_div a b - 1) * b < a" by linarith
  from m r show "a \<le> Math_ceil_div a b * b" by linarith
qed

lemma Math_ceil_div_pos:
  assumes "0 < a" and "0 < b"
  shows "1 \<le> Math_ceil_div a b"
proof (rule ccontr)
  assume "\<not> 1 \<le> Math_ceil_div a b"
  then have "Math_ceil_div a b \<le> 0" by simp
  then have "Math_ceil_div a b * b \<le> 0"
    using assms(2) by (simp add: mult_le_0_iff)
  with Math_ceil_div_bounds(2) [OF assms(2), of a] assms(1) show False by simp
qed

lemma chunk_lengths_prefix:
  assumes "0 < csize" and "0 < fsize" and "(count - 1) * csize < fsize"
  shows "int k \<le> count \<Longrightarrow>
         (\<Sum>i\<leftarrow>[0..<k]. min (int i * csize + csize) fsize - int i * csize) = min (int k * csize) fsize"
proof (induction k)
  case 0
  from assms(2) show ?case by simp
next
  case (Suc k)
  then have k: "int k \<le> count - 1" by simp
  with assms(1) have "int k * csize \<le> (count - 1) * csize"
    by (simp add: mult_right_mono)
  with assms(3) have below: "int k * csize < fsize" by simp
  from Suc have "(\<Sum>i\<leftarrow>[0..<k]. min (int i * csize + csize) fsize - int i * csize)
      = min (int k * csize) fsize" by simp
  with below show ?case by (simp add: algebra_simps min_def)
qed

lemma make_chunks_lengths:
  "map (\<lambda>c. chunk_end c - chunk_start c) (make_chunks count csize fsize) =
   map (\<lambda>i. min (int i * csize + csize) fsize - int i * csize) [0..<nat count]"
  by (simp add: make_chunks_def comp_def)

lemma make_chunks_sum:
  assumes "0 < fsize" and "0 < csize"
  shows "(\<Sum>c\<leftarrow>make_chunks (Math_ceil_div fsize csize) csize fsize. chunk_end c - chunk_start c) = fsize"
proof -
  let ?n = "Math_ceil_div fsize csize"
  have n: "1 \<le> ?n" using assms by (rule Math_ceil_div_pos)
  have lo: "(?n - 1) * csize < fsize" and hi: "fsize \<le> ?n * csize"
    using Math_ceil_div_bounds [OF assms(2), of fsize] by simp_all
  from n have "int (nat ?n) \<le> ?n" by simp
  from chunk_lengths_prefix [OF assms(2) assms(1) lo this]
  have "(\<Sum>i\<leftarrow>[0..<nat ?n]. min (int i * csize + csize) fsize - int i * csize)
      = min (int (nat ?n) * csize) fsize" .
  also have "\<dots> = fsize" using n hi by simp
  finally show ?thesis by (simp only: make_chunks_lengths)
qed

lemma make_chunks_last:
  assumes "0 < fsize" and "0 < csize"
  shows "last (make_chunks (Math_ceil_div fsize csize) csize fsize) =
     \<lparr>chunk_index = Math_ceil_div fsize csize - 1,
      chunk_start = (Math_ceil_div fsize csize - 1) * csize,
      chunk_end = fsize\<rparr>"
proof -
  let ?n = "Math_ceil_div fsize csize"
  have n: "1 \<le> ?n" using assms by (rule Math_ceil_div_pos)
  have hi: "fsize \<le> ?n * csize"
    using Math_ceil_div_bounds [OF assms(2), of fsize] by simp
  from n obtain m where m: "nat ?n = Suc m" by (cases "nat ?n") auto
  then have im: "int m = ?n - 1" by linarith
  have "int m * csize + csize = ?n * csize" by (simp add: im algebra_simps)
  with hi have "min (int m * csize + csize) fsize = fsize" by simp
  then show ?thesis
    by (simp add: make_chunks_def m im)
qed

lemma slice_size_inside:
  "0 \<le> a \<Longrightarrow> a \<le> b \<Longrightarrow> b \<le> f \<Longrightarrow> slice_size f a b = b - a"
  by (simp add: slice_size_def Let_def)

lemma make_chunks_ranges:
  assumes "0 < fsize" and "0 < csize" and "c \<in> set (make_chunks (Math_ceil_div fsize csize) csize fsize)"
  shows "0 \<le> chunk_index c" and "chunk_index c < Math_ceil_div fsize csize"
    and "chunk_start c = chunk_index c * csize"
    and "chunk_end c = min ((chunk_index c + 1) * csize) fsize"
    and "chunk_start c < chunk_end c" and "chunk_end c \<le> fsize"
    and "slice_size fsize (chunk_start c) (chunk_end c) = chunk_end c - chunk_start c"
proof -
  let ?n = "Math_ceil_div fsize csize"
  from assms(3) obtain i where i: "i < nat ?n"
    and c: "c = \<lparr>chunk_index = int i, chunk_start = int i * csize,
                  chunk_end = min (int i * csize + csize) fsize\<rparr>"
    by (auto simp: make_chunks_def)
  have lo: "(?n - 1) * csize < fsize"
    using Math_ceil_div_bounds [OF assms(2), of fsize] by simp
  from i have "int i \<le> ?n - 1" by linarith
  with assms(2) have "int i * csize \<le> (?n - 1) * csize" by (simp add: mult_right_mono)
  with lo have below: "int i * csize < fsize" by simp
  have nonneg: "0 \<le> int i * csize" using assms(2) by simp
  show "0 \<le> chunk_index c" by (simp add: c)
  show "chunk_index c < ?n" using i by (simp add: c)
  show "chunk_start c = chunk_index c * csize" by (simp add: c)
  show "chunk_end c = min ((chunk_index c + 1) * csize) fsize" by (simp add: c algebra_simps)
  show "chunk_start c < chunk_end c" using below assms(2) by (simp add: c)
  show "chunk_end c \<le> fsize" by (simp add: c)
  have "0 \<le> chunk_start c" using nonneg by (simp add: c)
  moreover have "chunk_start c \<le> chunk_end c" using below assms(2) by (simp add: c)
  moreover have "chunk_end c \<le> fsize" by (simp add: c)
  ultimately show "slice_size fsize (chunk_start c) (chunk_end c) = chunk_end c - chunk_start c"
    by (rule slice_size_inside)
qed

lemma upt3: "[0..<3] = [0, 1, 2]"
  by (simp add: upt_rec numeral_eq_Suc)

lemma client_uploadChunk_from_end:
  "MAX_RETRIES \<le> retries \<Longrightarrow> client_uploadChunk_from idx net retries = Inr False"
  by (subst client_uploadChunk_from.simps) simp

lemma client_uploadChunk_from_ok:
  "retries < MAX_RETRIES \<Longrightarrow> net retries = ResponseOk \<Longrightarrow>
   client_uploadChunk_from idx net retries = Inr True"
  by (subst client_uploadChunk_from.simps) simp

lemma client_uploadChunk_from_not_ok:
  "retries < MAX_RETRIES \<Longrightarrow> net retries = ResponseNotOk \<Longrightarrow>
   client_uploadChunk_from idx net retries = client_uploadChunk_from idx net (Suc retries)"
  by (subst client_uploadChunk_from.simps) simp

lemma client_uploadChunk_from_transport:
  "retries < MAX_RETRIES \<Longrightarrow> net retries = TransportError \<Longrightarrow>
   client_uploadChunk_from idx net retries =
     (if MAX_RETRIES \<le> Suc retries then Inl (ChunkFailed idx)
      else client_uploadChunk_from idx net (Suc retries))"
  by (subst client_uploadChunk_from.simps) simp

lemma client_uploadChunk_from_aborted:
  "retries < MAX_RETRIES \<Longrightarrow> net retries = Aborted \<Longrightarrow>
   client_uploadChunk_from idx net retries = Inl AbortError"
  by (subst client_uploadChunk_from.simps) simp

text \<open>Three responses that are not \<open>ok\<close>: the loop ends and \<open>uploadChunk\<close> returns
  \<open>false\<close>; nothing is thrown.\<close>

lemma client_uploadChunk_rejected:
  assumes "net 0 = ResponseNotOk" and "net (Suc 0) = ResponseNotOk"
    and "net (Suc (Suc 0)) = ResponseNotOk"
  shows "client_uploadChunk idx net = Inr False"
  using assms
  by (simp add: client_uploadChunk_def client_uploadChunk_from_not_ok
      client_uploadChunk_from_end MAX_RETRIES_def eval_nat_numeral)

text \<open>Three exceptions of the transport: \<open>uploadChunk\<close> throws.\<close>

lemma client_uploadChunk_transport:
  assumes "net 0 = TransportError" and "net (Suc 0) = TransportError"
    and "net (Suc (Suc 0)) = TransportError"
  shows "client_uploadChunk idx net = Inl (ChunkFailed idx)"
  using assms
  by (simp add: client_uploadChunk_def client_uploadChunk_from_transport
      MAX_RETRIES_def eval_nat_numeral)

lemma fill_set:
  "fill mp queue active = (queue', active') \<Longrightarrow> set queue' \<union> set active' = set queue \<union> set active"
  by (induction queue arbitrary: active) (auto split: if_splits)

lemma fill_active:
  "0 < mp \<Longrightarrow> queue \<noteq> [] \<or> active \<noteq> [] \<Longrightarrow> fill mp queue active = (queue', active') \<Longrightarrow>
   active' \<noteq> []"
proof (induction queue arbitrary: active)
  case Nil
  then show ?case by simp
next
  case (Cons c queue)
  show ?case
  proof (cases "int (length active) < mp")
    case True
    with Cons.prems(3) have "fill mp queue (active @ [c]) = (queue', active')" by simp
    with Cons.IH [OF Cons.prems(1), of "active @ [c]"] show ?thesis by simp
  next
    case False
    with Cons.prems(3) have "active' = active" by simp
    moreover from False Cons.prems(1) have "active \<noteq> []" by auto
    ultimately show ?thesis by simp
  qed
qed

lemma set_remove_nth:
  "i < length xs \<Longrightarrow> set xs = insert (xs ! i) (set (take i xs @ drop (Suc i) xs))"
proof -
  assume i: "i < length xs"
  then have "xs = take i xs @ (xs ! i) # drop (Suc i) xs"
    by (simp add: id_take_nth_drop)
  then have "set xs = set (take i xs @ (xs ! i) # drop (Suc i) xs)" by simp
  then show ?thesis by simp
qed

lemma length_remove_nth:
  "i < length xs \<Longrightarrow> Suc (length (take i xs @ drop (Suc i) xs)) = length xs"
  by simp

text \<open>When no chunk upload throws, the pool runs to its end and counts every chunk.\<close>

lemma pool_all_return:
  assumes mp: "0 < mp"
  shows "(\<And>c. c \<in> set queue \<union> set active \<Longrightarrow>
            \<exists>b. client_uploadChunk (chunk_index c) (net (chunk_index c)) = Inr b) \<Longrightarrow>
         pool race net mp queue active n = Some (Inr (n + int (length queue + length active)))"
proof (induction "length queue + length active" arbitrary: queue active n rule: less_induct)
  case less
  show ?case
  proof (cases "queue = [] \<and> active = []")
    case True
    then show ?thesis by (subst pool.simps) simp
  next
    case False
    obtain queue' active' where f: "fill mp queue active = (queue', active')"
      by (cases "fill mp queue active")
    from False have "queue \<noteq> [] \<or> active \<noteq> []" by simp
    from fill_active [OF mp this f] have ne: "active' \<noteq> []" .
    let ?i = "race active' mod length active'"
    let ?c = "active' ! ?i"
    let ?rest = "take ?i active' @ drop (Suc ?i) active'"
    from ne have i: "?i < length active'" by simp
    have sets: "set queue' \<union> set active' = set queue \<union> set active" using f by (rule fill_set)
    have lens: "length queue' + length active' = length queue + length active"
      using f by (rule fill_length)
    from i have "?c \<in> set active'" by simp
    with sets have "?c \<in> set queue \<union> set active" by blast
    from less.prems [OF this] obtain b where
      b: "client_uploadChunk (chunk_index ?c) (net (chunk_index ?c)) = Inr b" by blast
    have smaller: "length queue' + length ?rest < length queue + length active"
      using lens length_remove_nth [OF i] by linarith
    have inside: "\<exists>b. client_uploadChunk (chunk_index c) (net (chunk_index c)) = Inr b"
      if "c \<in> set queue' \<union> set ?rest" for c
    proof -
      from that set_remove_nth [OF i] have "c \<in> set queue' \<union> set active'" by auto
      with sets have "c \<in> set queue \<union> set active" by blast
      then show ?thesis by (rule less.prems)
    qed
    from less.hyps [OF smaller inside]
    have "pool race net mp queue' ?rest (n + 1)
        = Some (Inr (n + 1 + int (length queue' + length ?rest)))"
      by simp
    moreover have "n + 1 + int (length queue' + length ?rest) = n + int (length queue + length active)"
      using lens length_remove_nth [OF i] by linarith
    ultimately have rec: "pool race net mp queue' ?rest (n + 1)
        = Some (Inr (n + int (length queue + length active)))" by simp
    show ?thesis
      using False f ne b rec by (subst pool.simps) (simp add: Let_def)
  qed
qed

text \<open>When the upload of some chunk throws, the pool ends with an error.\<close>

lemma pool_some_throw:
  assumes mp: "0 < mp"
  shows "\<exists>c \<in> set queue \<union> set active.
            \<exists>err. client_uploadChunk (chunk_index c) (net (chunk_index c)) = Inl err \<Longrightarrow>
         \<exists>err. pool race net mp queue active n = Some (Inl err)"
proof (induction "length queue + length active" arbitrary: queue active n rule: less_induct)
  case less
  from less.prems obtain t err where t: "t \<in> set queue \<union> set active"
    and terr: "client_uploadChunk (chunk_index t) (net (chunk_index t)) = Inl err" by blast
  from t have False': "\<not> (queue = [] \<and> active = [])" by auto
  obtain queue' active' where f: "fill mp queue active = (queue', active')"
    by (cases "fill mp queue active")
  from False' have "queue \<noteq> [] \<or> active \<noteq> []" by simp
  from fill_active [OF mp this f] have ne: "active' \<noteq> []" .
  let ?i = "race active' mod length active'"
  let ?c = "active' ! ?i"
  let ?rest = "take ?i active' @ drop (Suc ?i) active'"
  from ne have i: "?i < length active'" by simp
  have sets: "set queue' \<union> set active' = set queue \<union> set active" using f by (rule fill_set)
  have lens: "length queue' + length active' = length queue + length active"
    using f by (rule fill_length)
  show ?case
  proof (cases "client_uploadChunk (chunk_index ?c) (net (chunk_index ?c))")
    case (Inl e)
    then show ?thesis
      using False' f ne by (subst pool.simps) (simp add: Let_def)
  next
    case (Inr b)
    have smaller: "length queue' + length ?rest < length queue + length active"
      using lens length_remove_nth [OF i] by linarith
    from t sets have "t \<in> set queue' \<union> set active'" by blast
    moreover from Inr terr have "t \<noteq> ?c" by auto
    ultimately have "t \<in> set queue' \<union> set ?rest"
      using set_remove_nth [OF i] by auto
    with terr have "\<exists>c \<in> set queue' \<union> set ?rest.
        \<exists>err. client_uploadChunk (chunk_index c) (net (chunk_index c)) = Inl err" by blast
    from less.hyps [OF smaller this]
    obtain e where "pool race net mp queue' ?rest (n + 1) = Some (Inl e)" by blast
    then show ?thesis
      using False' f ne Inr by (subst pool.simps) (simp add: Let_def)
  qed
qed

text \<open>Whatever the file and the schedule: when every attempt of every chunk is answered
  by a response that is not \<open>ok\<close>, \<open>uploadFile\<close> requests the completion and returns its
  result.\<close>

lemma uploadFile_rejected_chunks:
  assumes "0 < maxParallelChunks (fetchConfig configAnswer configRef)"
    and "\<And>i. net i 0 = ResponseNotOk \<and> net i (Suc 0) = ResponseNotOk
            \<and> net i (Suc (Suc 0)) = ResponseNotOk"
  shows "uploadFile configAnswer configRef (Ok session) race net (Ok r) fsize
           = Some \<lparr>returned = Some r, caught = None, completeIssued = True\<rparr>"
proof -
  let ?config = "fetchConfig configAnswer configRef"
  let ?chunks = "make_chunks (session_totalChunks session) (chunkSize ?config) fsize"
  have "\<exists>b. client_uploadChunk (chunk_index c) (net (chunk_index c)) = Inr b" for c
    using assms(2) [of "chunk_index c"] client_uploadChunk_rejected by blast
  then have "pool race net (maxParallelChunks ?config) ?chunks [] 0
      = Some (Inr (0 + int (length ?chunks + length ([] :: chunk list))))"
    by (intro pool_all_return [OF assms(1)])
  then show ?thesis
    by (simp add: uploadFile_def Let_def client_initializeUpload_def client_completeUpload_def)
qed

text \<open>When the three attempts of one chunk of the file end in exceptions of the
  transport, \<open>uploadFile\<close> returns \<open>null\<close> and requests no completion.\<close>

lemma uploadFile_transport_failure:
  assumes "0 < maxParallelChunks (fetchConfig configAnswer configRef)"
    and "0 \<le> i" and "i < session_totalChunks session"
    and "net i 0 = TransportError" and "net i (Suc 0) = TransportError"
    and "net i (Suc (Suc 0)) = TransportError"
  shows "\<exists>err. uploadFile configAnswer configRef (Ok session) race net completeAnswer fsize
           = Some \<lparr>returned = None, caught = Some err, completeIssued = False\<rparr>"
proof -
  let ?config = "fetchConfig configAnswer configRef"
  let ?chunks = "make_chunks (session_totalChunks session) (chunkSize ?config) fsize"
  let ?c = "\<lparr>chunk_index = i, chunk_start = i * chunkSize ?config,
             chunk_end = min (i * chunkSize ?config + chunkSize ?config) fsize\<rparr>"
  from assms(2,3) have "nat i < nat (session_totalChunks session)" by simp
  then have "nat i \<in> set [0..<nat (session_totalChunks session)]" by simp
  then have "(\<lambda>k. \<lparr>chunk_index = int k, chunk_start = int k * chunkSize ?config,
                chunk_end = min (int k * chunkSize ?config + chunkSize ?config) fsize\<rparr>) (nat i)
      \<in> set ?chunks"
    unfolding make_chunks_def set_map by (rule imageI)
  with assms(2) have "?c \<in> set ?chunks" by simp
  moreover have "client_uploadChunk (chunk_index ?c) (net (chunk_index ?c)) = Inl (ChunkFailed i)"
    using client_uploadChunk_transport [OF assms(4-6)] by simp
  ultimately have "\<exists>c \<in> set ?chunks \<union> set [].
      \<exists>err. client_uploadChunk (chunk_index c) (net (chunk_index c)) = Inl err"
    by blast
  from pool_some_throw [OF assms(1) this]
  obtain err where "pool race net (maxParallelChunks ?config) ?chunks [] 0 = Some (Inl err)"
    by blast
  then show ?thesis
    by (simp add: uploadFile_def Let_def client_initializeUpload_def)
qed

lemma fetchConfig_defaults:
  "fetchConfig FetchThrows \<lparr>chunkSize = DEFAULT_CHUNK_SIZE, maxParallelChunks = MAX_PARALLEL_CHUNKS\<rparr>
     = \<lparr>chunkSize = 5242880, maxParallelChunks = 4\<rparr>"
  by (simp add: fetchConfig_def DEFAULT_CHUNK_SIZE_def MAX_PARALLEL_CHUNKS_def)

lemma one_chunk: "make_chunks 1 5242880 1 = [\<lparr>chunk_index = 0, chunk_start = 0, chunk_end = 1\<rparr>]"
  by (simp add: make_chunks_def)

section \<open>The session store\<close>

text \<open>
  C9. For an upload id that is not in the session store, \<open>uploadChunk\<close> returns the result
  \<open>{success: false, chunkIndex, error: 'Session not found'}\<close> (a value, not an
  exception), \<open>completeUpload\<close> throws \<open>Error('Upload session not found')\<close>, and both
  leave the client, and so its session store, as it was.
\<close>

theorem unknown_session_rejected:
  assumes "uploadSessions c uid = None"
  shows "uploadChunk rt remote c uid idx chunkData =
           (\<lparr>success = False, chunkIndex = idx, etag = None, error = Some ''Session not found''\<rparr>, c)
         \<and> completeUpload rt e remote' c uid = (Inl (Error ''Upload session not found''), c)"
  using assms by (simp add: uploadChunk_def completeUpload_def)

theorem unknown_session_rejected_witness:
  "\<forall>rt. uploadSessions \<lparr>isConnected = False, uploadSessions = [''u1'' \<mapsto> two_of_three]\<rparr>
            ''no-such-upload'' = None
     \<and> uploadChunk rt FetchThrows \<lparr>isConnected = False, uploadSessions = [''u1'' \<mapsto> two_of_three]\<rparr>
           ''no-such-upload'' 7 [1, 2, 3]
         = (\<lparr>success = False, chunkIndex = 7, etag = None, error = Some ''Session not found''\<rparr>,
            \<lparr>isConnected = False, uploadSessions = [''u1'' \<mapsto> two_of_three]\<rparr>)
     \<and> completeUpload rt \<lparr>clock = (\<lambda>k. 0), randomUUID = ''asset-1''\<rparr> FetchThrows
           \<lparr>isConnected = False, uploadSessions = [''u1'' \<mapsto> two_of_three]\<rparr> ''no-such-upload''
         = (Inl (Error ''Upload session not found''),
            \<lparr>isConnected = False, uploadSessions = [''u1'' \<mapsto> two_of_three]\<rparr>)"
  using unknown_session_rejected
    [of "\<lparr>isConnected = False, uploadSessions = [''u1'' \<mapsto> two_of_three]\<rparr>" "''no-such-upload''"]
  by simp

text \<open>
  C8. \<open>getUploadProgress\<close> returns \<open>null\<close> for an upload id that is not in the store, and
  otherwise the progress \<open>completedChunks / totalChunks * 100\<close> with the session's status.
  It only reads the store: the function returns no client. A session with two of three
  chunks completed and status \<open>in_progress\<close> reports \<open>200 / 3\<close>, which is 66.67 up to
  a hundredth.
\<close>

theorem getUploadProgress_observes:
  "(uploadSessions c uid = None \<longrightarrow> getUploadProgress c uid = None)
   \<and> (\<forall>s. uploadSessions c uid = Some s \<longrightarrow>
          getUploadProgress c uid =
            Some (js_times (js_div (completedChunks s) (totalChunks s)) 100, status s)
          \<and> (totalChunks s \<noteq> 0 \<longrightarrow>
               getUploadProgress c uid =
                 Some (Finite (real_of_int (completedChunks s) / real_of_int (totalChunks s) * 100),
                       status s))
          \<and> (completedChunks s = 2 \<and> totalChunks s = 3 \<and> status s = in_progress \<longrightarrow>
               getUploadProgress c uid = Some (Finite (200 / 3), in_progress)
               \<and> \<bar>200 / 3 - 66.67\<bar> < (0.01 :: real)))"
  by (simp add: getUploadProgress_def js_div_def js_times_def)

theorem getUploadProgress_observes_witness:
  "getUploadProgress \<lparr>isConnected = False, uploadSessions = [''u1'' \<mapsto> two_of_three]\<rparr> ''u1''
     = Some (Finite (200 / 3), in_progress)
   \<and> getUploadProgress \<lparr>isConnected = False, uploadSessions = [''u1'' \<mapsto> two_of_three]\<rparr> ''u2''
     = None"
  using getUploadProgress_observes
    [of "\<lparr>isConnected = False, uploadSessions = [''u1'' \<mapsto> two_of_three]\<rparr>" "''u1''"]
    getUploadProgress_observes
    [of "\<lparr>isConnected = False, uploadSessions = [''u1'' \<mapsto> two_of_three]\<rparr>" "''u2''"]
  by (simp add: two_of_three_def js_div_def js_times_def)

text \<open>
  C2. With the client not connected to the central service, \<open>completeUpload\<close> on a
  session of the store returns an asset whose \<open>processingStatus\<close> is \<open>pending\<close> and whose
  forensic signature is the session's, whatever \<open>completedChunks\<close> and \<open>totalChunks\<close>
  are (neither is read), and deletes the session: afterwards \<open>uploadChunk\<close> on that id
  answers \<open>Session not found\<close>, a second \<open>completeUpload\<close> throws, so that no second
  asset is made of the session.
\<close>

theorem completeUpload_finalizes:
  assumes "\<not> isConnected c" and "uploadSessions c uid = Some s"
  shows "\<exists>asset c'.
           completeUpload rt e remote c uid = (Inr asset, c')
         \<and> processingStatus asset = pending
         \<and> asset_forensicSignature asset = forensicSignature s
         \<and> asset_creatorId asset = creatorId s
         \<and> originalFilename asset = filename s
         \<and> asset_fileSize asset = fileSize s
         \<and> uploadSessions c' = (uploadSessions c)(uid := None)
         \<and> isConnected c' = isConnected c
         \<and> uploadChunk rt remote1 c' uid idx chunkData
             = (\<lparr>success = False, chunkIndex = idx, etag = None,
                  error = Some ''Session not found''\<rparr>, c')
         \<and> completeUpload rt e2 remote2 c' uid = (Inl (Error ''Upload session not found''), c')
         \<and> getUploadProgress c' uid = None"
  using assms
  by (simp add: completeUpload_def uploadChunk_def use_central_def Let_def getUploadProgress_def)

theorem completeUpload_finalizes_witness:
  "\<forall>rt.
      completedChunks two_of_three < totalChunks two_of_three
    \<and> (case completeUpload rt \<lparr>clock = (\<lambda>k. 5000), randomUUID = ''asset-1''\<rparr> FetchThrows
               \<lparr>isConnected = False, uploadSessions = [''u1'' \<mapsto> two_of_three]\<rparr> ''u1'' of
          (Inr asset, c') \<Rightarrow>
              processingStatus asset = pending
            \<and> asset_forensicSignature asset = Some ''FANZ-0123456789ABCDEF''
            \<and> uploadSessions c' ''u1'' = None
            \<and> success (fst (uploadChunk rt FetchThrows c' ''u1'' 2 [3])) = False
            \<and> fst (completeUpload rt \<lparr>clock = (\<lambda>k. 6000), randomUUID = ''asset-2''\<rparr> FetchThrows c' ''u1'')
                = Inl (Error ''Upload session not found'')
        | (Inl err, c') \<Rightarrow> False)"
proof
  fix rt
  let ?c = "\<lparr>isConnected = False, uploadSessions = [''u1'' \<mapsto> two_of_three]\<rparr>"
  have n: "\<not> isConnected ?c" by simp
  have s: "uploadSessions ?c ''u1'' = Some two_of_three" by simp
  from completeUpload_finalizes [OF n s, of rt "\<lparr>clock = (\<lambda>k. 5000), randomUUID = ''asset-1''\<rparr>"
      FetchThrows FetchThrows 2 "[3]" "\<lparr>clock = (\<lambda>k. 6000), randomUUID = ''asset-2''\<rparr>" FetchThrows]
  show "completedChunks two_of_three < totalChunks two_of_three
    \<and> (case completeUpload rt \<lparr>clock = (\<lambda>k. 5000), randomUUID = ''asset-1''\<rparr> FetchThrows ?c ''u1'' of
          (Inr asset, c') \<Rightarrow>
              processingStatus asset = pending
            \<and> asset_forensicSignature asset = Some ''FANZ-0123456789ABCDEF''
            \<and> uploadSessions c' ''u1'' = None
            \<and> success (fst (uploadChunk rt FetchThrows c' ''u1'' 2 [3])) = False
            \<and> fst (completeUpload rt \<lparr>clock = (\<lambda>k. 6000), randomUUID = ''asset-2''\<rparr> FetchThrows c' ''u1'')
                = Inl (Error ''Upload session not found'')
        | (Inl err, c') \<Rightarrow> False)"
    by (auto simp: two_of_three_def)
qed

text \<open>
  C1, as claimed: \<open>completedChunks\<close> never exceeds \<open>totalChunks\<close>. It does: a session of one
  chunk whose chunk 0 is sent twice has \<open>completedChunks = 2\<close>.
\<close>

theorem completedChunks_exceeds_totalChunks:
  "\<forall>rt.
     (case initializeUpload rt \<lparr>clock = (\<lambda>k. 0), randomUUID = ''u1''\<rparr> FetchThrows
             \<lparr>isConnected = False, uploadSessions = Map.empty\<rparr>
             ''a.bin'' 1 ''application/octet-stream'' ''creator-1'' of
        (s, c1) \<Rightarrow>
          (case uploadChunk rt FetchThrows c1 ''u1'' 0 [7] of
             (r1, c2) \<Rightarrow>
               (case uploadChunk rt FetchThrows c2 ''u1'' 0 [7] of
                  (r2, c3) \<Rightarrow>
                      totalChunks s = 1 \<and> success r1 \<and> success r2
                    \<and> map_option totalChunks (uploadSessions c3 ''u1'') = Some 1
                    \<and> map_option completedChunks (uploadSessions c3 ''u1'') = Some 2)))"
  by (simp add: initializeUpload_local uploadChunk_def use_central_def Let_def ceil_one_byte)

text \<open>
  C1, amended. \<open>completedChunks\<close> is changed by \<open>uploadChunk\<close> only. Every \<open>uploadChunk\<close>
  for a session of the store succeeds and raises its counter, whatever the chunk index
  and whatever the counter and \<open>totalChunks\<close> are: by exactly one on the local path
  (a client that is not connected), where a run of \<open>n\<close> calls adds \<open>n\<close>; on the central
  path by one, or by two when the central service answers \<open>ok\<close> with the body \<open>null\<close>,
  so that a run of \<open>n\<close> calls adds \<open>n\<close> at least and \<open>2 * n\<close> at most. \<open>uploadChunk\<close> for an
  unknown id changes nothing; \<open>completeUpload\<close> and \<open>initializeUpload\<close> leave every
  session but the one they delete or register as it is.
\<close>

theorem completedChunks_counts_calls:
  "(\<forall>s. uploadSessions c uid = Some s \<longrightarrow>
       success (fst (uploadChunk rt remote c uid idx chunkData))
     \<and> uploadSessions (snd (uploadChunk rt remote c uid idx chunkData)) =
         (uploadSessions c)(uid \<mapsto> s\<lparr>completedChunks := completedChunks s +
            (if isConnected c \<and> MEDIAHUB_API_KEY rt \<noteq> [] \<and> remote = FetchOk Null then 2 else 1)\<rparr>)
     \<and> (\<not> isConnected c \<longrightarrow>
           uploadSessions (snd (uploadChunk rt remote c uid idx chunkData)) =
             (uploadSessions c)(uid \<mapsto> s\<lparr>completedChunks := completedChunks s + 1\<rparr>)
         \<and> uploadSessions (uploadChunks rt c uid calls) uid =
             Some (s\<lparr>completedChunks := completedChunks s + int (length calls)\<rparr>))
     \<and> (\<exists>k. length calls \<le> k \<and> k \<le> 2 * length calls \<and>
            uploadSessions (uploadChunks rt c uid calls) uid =
              Some (s\<lparr>completedChunks := completedChunks s + int k\<rparr>)))
   \<and> (uploadSessions c uid = None \<longrightarrow>
         \<not> success (fst (uploadChunk rt remote c uid idx chunkData))
       \<and> snd (uploadChunk rt remote c uid idx chunkData) = c)
   \<and> (\<forall>u. u \<noteq> uid \<longrightarrow>
         uploadSessions (snd (completeUpload rt e remote1 c uid)) u = uploadSessions c u)
   \<and> (\<forall>u. u \<noteq> uploadId (fst (initializeUpload rt e remote2 c fname fsize mime creator)) \<longrightarrow>
         uploadSessions (snd (initializeUpload rt e remote2 c fname fsize mime creator)) u
           = uploadSessions c u)"
proof (intro conjI allI impI)
  fix s assume s: "uploadSessions c uid = Some s"
  show "success (fst (uploadChunk rt remote c uid idx chunkData))"
    using uploadChunk_present(1) [OF s] .
  show "uploadSessions (snd (uploadChunk rt remote c uid idx chunkData)) =
         (uploadSessions c)(uid \<mapsto> s\<lparr>completedChunks := completedChunks s +
            (if isConnected c \<and> MEDIAHUB_API_KEY rt \<noteq> [] \<and> remote = FetchOk Null then 2 else 1)\<rparr>)"
    using uploadChunk_present(4) [OF s, of rt remote idx chunkData]
    by (simp add: counted_def use_central_def)
  show "\<exists>k. length calls \<le> k \<and> k \<le> 2 * length calls \<and>
            uploadSessions (uploadChunks rt c uid calls) uid =
              Some (s\<lparr>completedChunks := completedChunks s + int k\<rparr>)"
    using s by (rule uploadChunks_counts)
  assume local: "\<not> isConnected c"
  show "uploadSessions (snd (uploadChunk rt remote c uid idx chunkData)) =
             (uploadSessions c)(uid \<mapsto> s\<lparr>completedChunks := completedChunks s + 1\<rparr>)"
    using uploadChunk_present(4) [OF s, of rt remote idx chunkData] counted_local [OF local]
    by simp
  show "uploadSessions (uploadChunks rt c uid calls) uid =
         Some (s\<lparr>completedChunks := completedChunks s + int (length calls)\<rparr>)"
    using s local by (rule uploadChunks_present)
next
  assume "uploadSessions c uid = None"
  then show "\<not> success (fst (uploadChunk rt remote c uid idx chunkData))"
    and "snd (uploadChunk rt remote c uid idx chunkData) = c"
    by (simp_all add: uploadChunk_def)
next
  fix u assume "u \<noteq> uid"
  then show "uploadSessions (snd (completeUpload rt e remote1 c uid)) u = uploadSessions c u"
    by (rule completeUpload_frame)
next
  fix u
  assume u: "u \<noteq> uploadId (fst (initializeUpload rt e remote2 c fname fsize mime creator))"
  obtain session c' where
    i: "initializeUpload rt e remote2 c fname fsize mime creator = (session, c')"
    by (cases "initializeUpload rt e remote2 c fname fsize mime creator")
  from initializeUpload_registers [OF i] u i
  show "uploadSessions (snd (initializeUpload rt e remote2 c fname fsize mime creator)) u
           = uploadSessions c u"
    by simp
qed

theorem completedChunks_counts_calls_witness:
  "\<forall>rt.
     uploadSessions \<lparr>isConnected = False, uploadSessions = [''u1'' \<mapsto> two_of_three]\<rparr> ''u1''
       = Some two_of_three
   \<and> success (fst (uploadChunk rt FetchThrows
        \<lparr>isConnected = False, uploadSessions = [''u1'' \<mapsto> two_of_three]\<rparr> ''u1'' 0 [7]))
   \<and> map_option completedChunks
        (uploadSessions
          (uploadChunks rt \<lparr>isConnected = False, uploadSessions = [''u1'' \<mapsto> two_of_three]\<rparr> ''u1''
             [(FetchThrows, 0, [7]), (FetchThrows, 0, [7]), (FetchThrows, 1, [8])]) ''u1'') = Some 5
   \<and> totalChunks two_of_three = 3
   \<and> map_option completedChunks
        (uploadSessions (snd (uploadChunk rt (FetchOk Null)
           \<lparr>isConnected = True, uploadSessions = [''u1'' \<mapsto> two_of_three]\<rparr> ''u1'' 0 [7])) ''u1'')
        = Some (if MEDIAHUB_API_KEY rt \<noteq> [] then 4 else 3)
   \<and> uploadSessions \<lparr>isConnected = False, uploadSessions = [''u1'' \<mapsto> two_of_three]\<rparr> ''u2'' = None
   \<and> snd (uploadChunk rt FetchThrows
        \<lparr>isConnected = False, uploadSessions = [''u1'' \<mapsto> two_of_three]\<rparr> ''u2'' 0 [7])
       = \<lparr>isConnected = False, uploadSessions = [''u1'' \<mapsto> two_of_three]\<rparr>
   \<and> uploadSessions (snd (completeUpload rt \<lparr>clock = (\<lambda>k. 5000), randomUUID = ''asset-1''\<rparr> FetchThrows
        \<lparr>isConnected = False, uploadSessions = [''u1'' \<mapsto> two_of_three]\<rparr> ''u2'')) ''u1''
       = Some two_of_three"
proof
  fix rt
  let ?c = "\<lparr>isConnected = False, uploadSessions = [''u1'' \<mapsto> two_of_three]\<rparr>"
  let ?d = "\<lparr>isConnected = True, uploadSessions = [''u1'' \<mapsto> two_of_three]\<rparr>"
  let ?calls = "[(FetchThrows, 0, [7]), (FetchThrows, 0, [7]), (FetchThrows, 1, [8])]
                  :: (string option json fetch_result \<times> int \<times> byte list) list"
  note a = completedChunks_counts_calls [of ?c "''u1''" rt FetchThrows 0 "[7]" ?calls]
  note b = completedChunks_counts_calls [of ?c "''u2''" rt FetchThrows 0 "[7]" "[]"
      "\<lparr>clock = (\<lambda>k. 5000), randomUUID = ''asset-1''\<rparr>" FetchThrows]
  note d = completedChunks_counts_calls [of ?d "''u1''" rt "FetchOk Null" 0 "[7]" "[]"]
  from a have a1: "success (fst (uploadChunk rt FetchThrows ?c ''u1'' 0 [7]))"
    and a2: "uploadSessions (uploadChunks rt ?c ''u1'' ?calls) ''u1'' =
             Some (two_of_three\<lparr>completedChunks := completedChunks two_of_three + int (length ?calls)\<rparr>)"
    by simp_all
  from b have b1: "snd (uploadChunk rt FetchThrows ?c ''u2'' 0 [7]) = ?c"
    and b2: "uploadSessions (snd (completeUpload rt \<lparr>clock = (\<lambda>k. 5000), randomUUID = ''asset-1''\<rparr>
        FetchThrows ?c ''u2'')) ''u1'' = Some two_of_three"
    by simp_all
  from d have d1: "uploadSessions (snd (uploadChunk rt (FetchOk Null) ?d ''u1'' 0 [7])) =
         [''u1'' \<mapsto> two_of_three\<lparr>completedChunks := completedChunks two_of_three +
            (if MEDIAHUB_API_KEY rt \<noteq> [] then 2 else 1)\<rparr>]"
    by simp
  have a3: "map_option completedChunks (uploadSessions (uploadChunks rt ?c ''u1'' ?calls) ''u1'') = Some 5"
    unfolding a2 by (simp add: two_of_three_def)
  have d2: "map_option completedChunks
        (uploadSessions (snd (uploadChunk rt (FetchOk Null) ?d ''u1'' 0 [7])) ''u1'')
        = Some (if MEDIAHUB_API_KEY rt \<noteq> [] then 4 else 3)"
    unfolding d1 by (simp add: two_of_three_def)
  have t: "totalChunks two_of_three = 3" by (simp add: two_of_three_def)
  have l: "uploadSessions ?c ''u1'' = Some two_of_three" "uploadSessions ?c ''u2'' = None"
    by simp_all
  from l(1) a1 a3 t d2 l(2) b1 b2
  show "uploadSessions ?c ''u1'' = Some two_of_three
   \<and> success (fst (uploadChunk rt FetchThrows ?c ''u1'' 0 [7]))
   \<and> map_option completedChunks (uploadSessions (uploadChunks rt ?c ''u1'' ?calls) ''u1'') = Some 5
   \<and> totalChunks two_of_three = 3
   \<and> map_option completedChunks
        (uploadSessions (snd (uploadChunk rt (FetchOk Null) ?d ''u1'' 0 [7])) ''u1'')
        = Some (if MEDIAHUB_API_KEY rt \<noteq> [] then 4 else 3)
   \<and> uploadSessions ?c ''u2'' = None
   \<and> snd (uploadChunk rt FetchThrows ?c ''u2'' 0 [7]) = ?c
   \<and> uploadSessions (snd (completeUpload rt \<lparr>clock = (\<lambda>k. 5000), randomUUID = ''asset-1''\<rparr> FetchThrows
        ?c ''u2'')) ''u1'' = Some two_of_three"
    by (intro conjI)
qed

text \<open>
  C5, as claimed: a chunk sent after the session's \<open>expiresAt\<close> is not accepted. It is:
  \<open>uploadChunk\<close> takes the upload id, the chunk index and the bytes and reads no clock,
  so what it answers to a call made at the instant 86400001 is what it answers at any
  other instant. A session opened while the clock reads 0 expires at 86400000, and its
  chunk is accepted.
\<close>

theorem chunk_accepted_after_expiry:
  "\<forall>rt.
     (case initializeUpload rt \<lparr>clock = (\<lambda>k. 0), randomUUID = ''u1''\<rparr> FetchThrows
             \<lparr>isConnected = False, uploadSessions = Map.empty\<rparr>
             ''a.bin'' 1 ''application/octet-stream'' ''creator-1'' of
        (s, c1) \<Rightarrow>
            expiresAt s = 24 * 60 * 60 * 1000
          \<and> map_option expiresAt (uploadSessions c1 ''u1'') = Some 86400000
          \<and> success (fst (uploadChunk rt FetchThrows c1 ''u1'' 0 [7]))
          \<and> map_option completedChunks
               (uploadSessions (snd (uploadChunk rt FetchThrows c1 ''u1'' 0 [7])) ''u1'') = Some 1)"
  by (simp add: initializeUpload_local uploadChunk_def use_central_def Let_def)

text \<open>
  C5, amended. When a session is opened locally, \<open>expiresAt\<close> is set to what the clock
  reads at that moment plus twenty-four hours (\<open>createdAt\<close> is an earlier reading of
  the clock in the same call), and \<open>uploadChunk\<close> never reads it: for a session of the
  store the chunk is accepted and counted (once on the local path), and the answer and
  the count are the same whatever \<open>expiresAt\<close> holds.
\<close>

theorem uploadChunk_ignores_expiresAt:
  "(\<forall>s. uploadSessions c uid = Some s \<longrightarrow>
       success (fst (uploadChunk rt remote c uid idx chunkData))
     \<and> (\<exists>s'. uploadSessions (snd (uploadChunk rt remote c uid idx chunkData)) uid = Some s'
             \<and> completedChunks s < completedChunks s' \<and> expiresAt s' = expiresAt s)
     \<and> (\<not> isConnected c \<longrightarrow>
           uploadSessions (snd (uploadChunk rt remote c uid idx chunkData)) uid =
             Some (s\<lparr>completedChunks := completedChunks s + 1\<rparr>))
     \<and> (\<forall>t. fst (uploadChunk rt remote
                   (c\<lparr>uploadSessions := (uploadSessions c)(uid \<mapsto> s\<lparr>expiresAt := t\<rparr>)\<rparr>)
                   uid idx chunkData)
             = fst (uploadChunk rt remote c uid idx chunkData)
           \<and> uploadSessions (snd (uploadChunk rt remote
                   (c\<lparr>uploadSessions := (uploadSessions c)(uid \<mapsto> s\<lparr>expiresAt := t\<rparr>)\<rparr>)
                   uid idx chunkData)) uid
             = map_option (\<lambda>s'. s'\<lparr>expiresAt := t\<rparr>)
                 (uploadSessions (snd (uploadChunk rt remote c uid idx chunkData)) uid)))
   \<and> (\<not> isConnected c \<longrightarrow>
        expiresAt (fst (initializeUpload rt e remote1 c fname fsize mime creator))
          = clock e 2 + 24 * 60 * 60 * 1000
      \<and> createdAt (fst (initializeUpload rt e remote1 c fname fsize mime creator)) = clock e 1)"
proof (intro conjI allI impI)
  fix s assume s: "uploadSessions c uid = Some s"
  note step = uploadChunk_present(4) [OF s, of rt remote idx chunkData]
  show "success (fst (uploadChunk rt remote c uid idx chunkData))"
    using uploadChunk_present(1) [OF s] .
  show "\<exists>s'. uploadSessions (snd (uploadChunk rt remote c uid idx chunkData)) uid = Some s'
             \<and> completedChunks s < completedChunks s' \<and> expiresAt s' = expiresAt s"
    using step counted_range(1) [of rt remote c] by simp
  show "uploadSessions (snd (uploadChunk rt remote c uid idx chunkData)) uid =
             Some (s\<lparr>completedChunks := completedChunks s + 1\<rparr>)" if "\<not> isConnected c"
    using step counted_local [OF that] by simp
  fix t
  let ?c = "c\<lparr>uploadSessions := (uploadSessions c)(uid \<mapsto> s\<lparr>expiresAt := t\<rparr>)\<rparr>"
  have s': "uploadSessions ?c uid = Some (s\<lparr>expiresAt := t\<rparr>)" by simp
  have same: "counted rt remote ?c = counted rt remote c"
    by (simp add: counted_def use_central_def)
  show "fst (uploadChunk rt remote ?c uid idx chunkData) = fst (uploadChunk rt remote c uid idx chunkData)"
    using s by (simp add: uploadChunk_def Let_def use_central_def split: fetch_result.split json.split)
  show "uploadSessions (snd (uploadChunk rt remote ?c uid idx chunkData)) uid
          = map_option (\<lambda>s'. s'\<lparr>expiresAt := t\<rparr>)
              (uploadSessions (snd (uploadChunk rt remote c uid idx chunkData)) uid)"
    using uploadChunk_present(4) [OF s', of rt remote idx chunkData] step same by simp
next
  assume local: "\<not> isConnected c"
  show "expiresAt (fst (initializeUpload rt e remote1 c fname fsize mime creator))
          = clock e 2 + 24 * 60 * 60 * 1000"
    using local by (simp add: initializeUpload_local)
  show "createdAt (fst (initializeUpload rt e remote1 c fname fsize mime creator)) = clock e 1"
    using local by (simp add: initializeUpload_local)
qed

theorem uploadChunk_ignores_expiresAt_witness:
  "\<forall>rt.
     uploadSessions \<lparr>isConnected = False, uploadSessions = [''u1'' \<mapsto> two_of_three]\<rparr> ''u1''
       = Some two_of_three
   \<and> expiresAt two_of_three = 86401000
   \<and> success (fst (uploadChunk rt FetchThrows
        \<lparr>isConnected = False, uploadSessions = [''u1'' \<mapsto> two_of_three]\<rparr> ''u1'' 2 [9]))
   \<and> map_option completedChunks (uploadSessions (snd (uploadChunk rt FetchThrows
        \<lparr>isConnected = False, uploadSessions = [''u1'' \<mapsto> two_of_three]\<rparr> ''u1'' 2 [9])) ''u1'')
       = Some 3
   \<and> createdAt (fst (initializeUpload rt \<lparr>clock = (\<lambda>k. 1000 + int k), randomUUID = ''u2''\<rparr>
        FetchThrows \<lparr>isConnected = False, uploadSessions = [''u1'' \<mapsto> two_of_three]\<rparr>
        ''a.bin'' 1 ''application/octet-stream'' ''creator-1'')) = 1001
   \<and> expiresAt (fst (initializeUpload rt \<lparr>clock = (\<lambda>k. 1000 + int k), randomUUID = ''u2''\<rparr>
        FetchThrows \<lparr>isConnected = False, uploadSessions = [''u1'' \<mapsto> two_of_three]\<rparr>
        ''a.bin'' 1 ''application/octet-stream'' ''creator-1'')) = 86401002"
proof
  fix rt
  let ?c = "\<lparr>isConnected = False, uploadSessions = [''u1'' \<mapsto> two_of_three]\<rparr>"
  let ?e = "\<lparr>clock = (\<lambda>k. 1000 + int k), randomUUID = ''u2''\<rparr>"
  note t = uploadChunk_ignores_expiresAt [of ?c "''u1''" rt FetchThrows 2 "[9]"
      ?e FetchThrows "''a.bin''" 1 "''application/octet-stream''" "''creator-1''"]
  from t have acc: "success (fst (uploadChunk rt FetchThrows ?c ''u1'' 2 [9]))"
    and cnt: "uploadSessions (snd (uploadChunk rt FetchThrows ?c ''u1'' 2 [9])) ''u1'' =
             Some (two_of_three\<lparr>completedChunks := completedChunks two_of_three + 1\<rparr>)"
    and exp: "expiresAt (fst (initializeUpload rt ?e FetchThrows ?c
        ''a.bin'' 1 ''application/octet-stream'' ''creator-1'')) = clock ?e 2 + 24 * 60 * 60 * 1000"
    and cre: "createdAt (fst (initializeUpload rt ?e FetchThrows ?c
        ''a.bin'' 1 ''application/octet-stream'' ''creator-1'')) = clock ?e 1"
    by simp_all
  have cnt': "map_option completedChunks
       (uploadSessions (snd (uploadChunk rt FetchThrows ?c ''u1'' 2 [9])) ''u1'') = Some 3"
    unfolding cnt by (simp add: two_of_three_def)
  have exp': "expiresAt (fst (initializeUpload rt ?e FetchThrows ?c
        ''a.bin'' 1 ''application/octet-stream'' ''creator-1'')) = 86401002"
    unfolding exp by simp
  have cre': "createdAt (fst (initializeUpload rt ?e FetchThrows ?c
        ''a.bin'' 1 ''application/octet-stream'' ''creator-1'')) = 1001"
    unfolding cre by simp
  have l: "uploadSessions ?c ''u1'' = Some two_of_three" "expiresAt two_of_three = 86401000"
    by (simp_all add: two_of_three_def)
  from l acc cnt' cre' exp'
  show "uploadSessions ?c ''u1'' = Some two_of_three
   \<and> expiresAt two_of_three = 86401000
   \<and> success (fst (uploadChunk rt FetchThrows ?c ''u1'' 2 [9]))
   \<and> map_option completedChunks (uploadSessions (snd (uploadChunk rt FetchThrows ?c ''u1'' 2 [9])) ''u1'')
       = Some 3
   \<and> createdAt (fst (initializeUpload rt ?e FetchThrows ?c
        ''a.bin'' 1 ''application/octet-stream'' ''creator-1'')) = 1001
   \<and> expiresAt (fst (initializeUpload rt ?e FetchThrows ?c
        ''a.bin'' 1 ''application/octet-stream'' ''creator-1'')) = 86401002"
    by (intro conjI)
qed

text \<open>
  C6, as claimed: the \<open>fileHash\<close> of the asset is a digest of the uploaded bytes and varies
  with them. It does not: two uploads of the same session that differ in the bytes of
  their chunk end in assets with the same \<open>fileHash\<close>, the digest of the upload id.
\<close>

theorem fileHash_same_for_different_content:
  "\<forall>rt.
     (case initializeUpload rt \<lparr>clock = (\<lambda>k. 0), randomUUID = ''u1''\<rparr> FetchThrows
             \<lparr>isConnected = False, uploadSessions = Map.empty\<rparr>
             ''a.bin'' 1 ''application/octet-stream'' ''creator-1'' of
        (s, c1) \<Rightarrow>
          (case (completeUpload rt \<lparr>clock = (\<lambda>k. 9), randomUUID = ''asset-1''\<rparr> FetchThrows
                   (snd (uploadChunk rt FetchThrows c1 ''u1'' 0 [1])) ''u1'',
                 completeUpload rt \<lparr>clock = (\<lambda>k. 9), randomUUID = ''asset-1''\<rparr> FetchThrows
                   (snd (uploadChunk rt FetchThrows c1 ''u1'' 0 [2])) ''u1'') of
             ((Inr asset1, c2), (Inr asset2, c2')) \<Rightarrow>
                 fileHash asset1 = fileHash asset2
               \<and> fileHash asset1 = digest_hex (sha256 rt ''u1'')
           | _ \<Rightarrow> False))"
  by (simp add: initializeUpload_local uploadChunk_def completeUpload_def use_central_def Let_def)

text \<open>
  C6, amended. On the local path the \<open>fileHash\<close> of the asset is the SHA-256 digest, in
  hexadecimal, of the upload id; it is the same whatever chunks were uploaded before the
  completion.
\<close>

theorem fileHash_of_uploadId:
  "\<forall>s. uploadSessions c uid = Some s \<and> \<not> isConnected c \<longrightarrow>
     (\<exists>asset c'. completeUpload rt e remote c uid = (Inr asset, c')
        \<and> fileHash asset = digest_hex (sha256 rt uid))
   \<and> (\<forall>calls. \<exists>asset c'.
          completeUpload rt e remote (uploadChunks rt c uid calls) uid = (Inr asset, c')
        \<and> fileHash asset = digest_hex (sha256 rt uid))"
proof (intro allI impI conjI)
  fix s assume a: "uploadSessions c uid = Some s \<and> \<not> isConnected c"
  then show "\<exists>asset c'. completeUpload rt e remote c uid = (Inr asset, c')
        \<and> fileHash asset = digest_hex (sha256 rt uid)"
    using completeUpload_local [of c uid s rt e remote] by simp
  fix calls
  from a have "uploadSessions (uploadChunks rt c uid calls) uid =
      Some (s\<lparr>completedChunks := completedChunks s + int (length calls)\<rparr>)"
    using uploadChunks_present [of c uid s rt calls] by simp
  moreover from a have "\<not> isConnected (uploadChunks rt c uid calls)"
    by (simp add: uploadChunks_isConnected)
  ultimately show "\<exists>asset c'. completeUpload rt e remote (uploadChunks rt c uid calls) uid = (Inr asset, c')
        \<and> fileHash asset = digest_hex (sha256 rt uid)"
    using completeUpload_local [of "uploadChunks rt c uid calls" uid _ rt e remote] by simp
qed

theorem fileHash_of_uploadId_witness:
  "\<forall>rt.
     uploadSessions \<lparr>isConnected = False, uploadSessions = [''u1'' \<mapsto> two_of_three]\<rparr> ''u1''
       = Some two_of_three
   \<and> (case completeUpload rt \<lparr>clock = (\<lambda>k. 5000), randomUUID = ''asset-1''\<rparr> FetchThrows
              (uploadChunks rt \<lparr>isConnected = False, uploadSessions = [''u1'' \<mapsto> two_of_three]\<rparr>
                 ''u1'' [(FetchThrows, 2, [9, 9, 9])]) ''u1'' of
         (Inr asset, c') \<Rightarrow> fileHash asset = digest_hex (sha256 rt ''u1'')
       | (Inl err, c') \<Rightarrow> False)"
proof
  fix rt
  let ?c = "\<lparr>isConnected = False, uploadSessions = [''u1'' \<mapsto> two_of_three]\<rparr>"
  let ?calls = "[(FetchThrows, 2, [9, 9, 9])] :: (string option json fetch_result \<times> int \<times> byte list) list"
  from fileHash_of_uploadId [of ?c "''u1''" rt "\<lparr>clock = (\<lambda>k. 5000), randomUUID = ''asset-1''\<rparr>" FetchThrows]
  have "\<forall>calls. \<exists>asset c'. completeUpload rt \<lparr>clock = (\<lambda>k. 5000), randomUUID = ''asset-1''\<rparr> FetchThrows
            (uploadChunks rt ?c ''u1'' calls) ''u1'' = (Inr asset, c')
          \<and> fileHash asset = digest_hex (sha256 rt ''u1'')"
    by simp
  then have "\<exists>asset c'. completeUpload rt \<lparr>clock = (\<lambda>k. 5000), randomUUID = ''asset-1''\<rparr> FetchThrows
            (uploadChunks rt ?c ''u1'' ?calls) ''u1'' = (Inr asset, c')
          \<and> fileHash asset = digest_hex (sha256 rt ''u1'')"
    by (rule spec)
  then show "uploadSessions ?c ''u1'' = Some two_of_three
   \<and> (case completeUpload rt \<lparr>clock = (\<lambda>k. 5000), randomUUID = ''asset-1''\<rparr> FetchThrows
              (uploadChunks rt ?c ''u1'' ?calls) ''u1'' of
         (Inr asset, c') \<Rightarrow> fileHash asset = digest_hex (sha256 rt ''u1'')
       | (Inl err, c') \<Rightarrow> False)"
    by auto
qed

section \<open>The route that opens a session\<close>

text \<open>
  C10, as claimed: since the route answers 400 to \<open>fileSize = 0\<close>, no session with
  \<open>totalChunks = 0\<close> is made through it. One is: a request with \<open>fileSize = -1\<close> passes
  both checks of the route (\<open>!fileSize\<close> is false and \<open>-1 > 10 GiB\<close> is false), and
  \<open>Math.ceil(-1 / CHUNK_SIZE)\<close> is zero, so the progress of the session divides zero
  by zero.
\<close>

theorem negative_fileSize_opens_empty_session:
  "\<forall>rt.
     (case upload_init_route rt \<lparr>clock = (\<lambda>k. 0), randomUUID = ''u1''\<rparr> FetchThrows
             \<lparr>isConnected = False, uploadSessions = Map.empty\<rparr>
             \<lparr>body_filename = Some ''a.bin'', body_fileSize = Some (- 1),
              body_mimeType = Some ''application/octet-stream''\<rparr> ''creator-1'' of
        (HttpOk d, c') \<Rightarrow>
            data_uploadId d = ''u1''
          \<and> data_totalChunks d = 0
          \<and> map_option totalChunks (uploadSessions c' ''u1'') = Some 0
          \<and> getUploadProgress c' ''u1'' = Some (NaN, in_progress)
      | (HttpError code msg, c') \<Rightarrow> False)"
  by (simp add: upload_init_route_def initializeUpload_local ceil_minus_one
      getUploadProgress_def js_div_def js_times_def)

text \<open>
  C10, amended. The route answers 400 \<open>Missing required fields\<close> to every request whose
  \<open>fileSize\<close> is the number 0 and leaves the store as it is; and every session that the
  route opens locally for a \<open>fileSize\<close> of one or more has \<open>totalChunks \<ge> 1\<close> (for a whole
  \<open>fileSize\<close>, the ceiling of \<open>fileSize / CHUNK_SIZE\<close>), so that its progress is a
  quotient with a divisor that is not zero (it is 0 percent right after the session is
  opened). Nothing is said of a \<open>fileSize\<close> below one: the least positive double, like
  a negative number, passes both checks of the route and opens a session of no chunks
  (lemma \<open>least_double_opens_empty_session\<close>).
\<close>

theorem init_route_rejects_zero_fileSize:
  "(body_fileSize body = Some 0 \<longrightarrow>
      upload_init_route rt e remote c body userId =
        (HttpError 400 ''Missing required fields: filename, fileSize, mimeType'', c))
   \<and> (\<forall>d c' x.
        \<not> isConnected c \<and> body_fileSize body = Some x \<and> 1 \<le> x
        \<and> upload_init_route rt e remote c body userId = (HttpOk d, c') \<longrightarrow>
          1 \<le> data_totalChunks d
        \<and> (\<forall>n. x = real_of_int n \<longrightarrow> data_totalChunks d = Math_ceil_div n CHUNK_SIZE)
        \<and> map_option totalChunks (uploadSessions c' (data_uploadId d)) = Some (data_totalChunks d)
        \<and> getUploadProgress c' (data_uploadId d) = Some (Finite 0, in_progress))"
proof (intro conjI allI impI)
  assume "body_fileSize body = Some 0"
  then show "upload_init_route rt e remote c body userId =
        (HttpError 400 ''Missing required fields: filename, fileSize, mimeType'', c)"
    by (simp add: upload_init_route_def split: option.split)
next
  fix d c' x
  assume a: "\<not> isConnected c \<and> body_fileSize body = Some x \<and> 1 \<le> x
        \<and> upload_init_route rt e remote c body userId = (HttpOk d, c')"
  then have pos: "1 \<le> Math_ceil_quotient x CHUNK_SIZE"
    using Math_ceil_quotient_pos [of x] by simp
  from a have d: "data_uploadId d = randomUUID e"
      "data_totalChunks d = Math_ceil_quotient x CHUNK_SIZE"
    and c': "map_option totalChunks (uploadSessions c' (randomUUID e))
               = Some (Math_ceil_quotient x CHUNK_SIZE)"
      "map_option completedChunks (uploadSessions c' (randomUUID e)) = Some 0"
      "map_option status (uploadSessions c' (randomUUID e)) = Some in_progress"
    by (auto simp: upload_init_route_def initializeUpload_local split: option.splits if_splits)
  show "1 \<le> data_totalChunks d" using pos d by simp
  show "map_option totalChunks (uploadSessions c' (data_uploadId d)) = Some (data_totalChunks d)"
    using d c' by simp
  show "getUploadProgress c' (data_uploadId d) = Some (Finite 0, in_progress)"
    using d c' pos by (auto simp: getUploadProgress_def js_div_def js_times_def split: option.splits)
  fix n assume "x = real_of_int n"
  then show "data_totalChunks d = Math_ceil_div n CHUNK_SIZE"
    using d(2) by (simp add: Math_ceil_quotient_int)
qed

theorem init_route_rejects_zero_fileSize_witness:
  "\<forall>rt.
     upload_init_route rt \<lparr>clock = (\<lambda>k. 0), randomUUID = ''u1''\<rparr> FetchThrows
         \<lparr>isConnected = False, uploadSessions = Map.empty\<rparr>
         \<lparr>body_filename = Some ''a.bin'', body_fileSize = Some 0,
          body_mimeType = Some ''application/octet-stream''\<rparr> ''creator-1''
       = (HttpError 400 ''Missing required fields: filename, fileSize, mimeType'',
          \<lparr>isConnected = False, uploadSessions = Map.empty\<rparr>)
   \<and> (case upload_init_route rt \<lparr>clock = (\<lambda>k. 0), randomUUID = ''u1''\<rparr> FetchThrows
             \<lparr>isConnected = False, uploadSessions = Map.empty\<rparr>
             \<lparr>body_filename = Some ''clip.mp4'', body_fileSize = Some (12 * 1024 * 1024),
              body_mimeType = Some ''video/mp4''\<rparr> ''creator-1'' of
        (HttpOk d, c') \<Rightarrow>
            data_totalChunks d = 3
          \<and> getUploadProgress c' (data_uploadId d) = Some (Finite 0, in_progress)
      | (HttpError code msg, c') \<Rightarrow> False)"
proof
  fix rt
  let ?e = "\<lparr>clock = (\<lambda>k. 0), randomUUID = ''u1''\<rparr>"
  let ?c = "\<lparr>isConnected = False, uploadSessions = Map.empty\<rparr>"
  let ?b0 = "\<lparr>body_filename = Some ''a.bin'', body_fileSize = Some 0,
          body_mimeType = Some ''application/octet-stream''\<rparr>"
  let ?b1 = "\<lparr>body_filename = Some ''clip.mp4'', body_fileSize = Some (12 * 1024 * 1024),
              body_mimeType = Some ''video/mp4''\<rparr>"
  have zero: "upload_init_route rt ?e FetchThrows ?c ?b0 ''creator-1''
       = (HttpError 400 ''Missing required fields: filename, fileSize, mimeType'', ?c)"
    using init_route_rejects_zero_fileSize [of ?b0 rt ?e FetchThrows ?c "''creator-1''"] by simp
  obtain d c' where ok: "upload_init_route rt ?e FetchThrows ?c ?b1 ''creator-1'' = (HttpOk d, c')"
    by (simp add: upload_init_route_def initializeUpload_local)
  have whole: "(12 * 1024 * 1024 :: real) = real_of_int 12582912" by simp
  from init_route_rejects_zero_fileSize [of ?b1 rt ?e FetchThrows ?c "''creator-1''"] ok
  have "(\<forall>n. (12 * 1024 * 1024 :: real) = real_of_int n \<longrightarrow>
            data_totalChunks d = Math_ceil_div n CHUNK_SIZE)
        \<and> getUploadProgress c' (data_uploadId d) = Some (Finite 0, in_progress)"
    by simp
  with whole have "data_totalChunks d = Math_ceil_div 12582912 CHUNK_SIZE
        \<and> getUploadProgress c' (data_uploadId d) = Some (Finite 0, in_progress)"
    by blast
  then have "data_totalChunks d = 3
        \<and> getUploadProgress c' (data_uploadId d) = Some (Finite 0, in_progress)"
    by (simp add: Math_ceil_div_int CHUNK_SIZE_def)
  with zero ok show "upload_init_route rt ?e FetchThrows ?c ?b0 ''creator-1''
       = (HttpError 400 ''Missing required fields: filename, fileSize, mimeType'', ?c)
   \<and> (case upload_init_route rt ?e FetchThrows ?c ?b1 ''creator-1'' of
        (HttpOk d, c') \<Rightarrow>
            data_totalChunks d = 3
          \<and> getUploadProgress c' (data_uploadId d) = Some (Finite 0, in_progress)
      | (HttpError code msg, c') \<Rightarrow> False)"
    by simp
qed

section \<open>The chunks of a file\<close>

text \<open>
  C4. For a file of \<open>fsize > 0\<close> bytes and a chunk size \<open>csize > 0\<close>: the number of chunks
  is \<open>\<lceil>fsize / csize\<rceil>\<close>, which is what \<open>initializeUpload\<close> stores as \<open>totalChunks\<close> for
  its chunk size \<open>CHUNK_SIZE\<close>, the chunk size that the client has by default and that
  it is given by the configuration route; the client makes that many chunks, chunk \<open>i\<close> being the
  bytes from \<open>i * csize\<close> to \<open>min ((i + 1) * csize) fsize\<close>, a slice of the file of
  exactly that many bytes; the lengths of the chunks add up to \<open>fsize\<close>; and the last
  chunk has \<open>fsize - (totalChunks - 1) * csize\<close> bytes.
\<close>

theorem chunk_partition_covers_file:
  assumes "0 < fsize" and "0 < csize"
  shows "Math_ceil_div fsize csize = \<lceil>real_of_int fsize / real_of_int csize\<rceil>
     \<and> (\<not> isConnected c \<longrightarrow>
          totalChunks (fst (initializeUpload rt e remote c fname fsize mime creator))
            = \<lceil>real_of_int fsize / real_of_int CHUNK_SIZE\<rceil>)
     \<and> DEFAULT_CHUNK_SIZE = CHUNK_SIZE
     \<and> chunkSize (fetchConfig (FetchOk (CHUNK_SIZE, mp)) configRef) = CHUNK_SIZE
     \<and> length (make_chunks (Math_ceil_div fsize csize) csize fsize) = nat (Math_ceil_div fsize csize)
     \<and> (\<forall>c \<in> set (make_chunks (Math_ceil_div fsize csize) csize fsize).
            0 \<le> chunk_index c \<and> chunk_index c < Math_ceil_div fsize csize
          \<and> chunk_start c = chunk_index c * csize
          \<and> chunk_end c = min ((chunk_index c + 1) * csize) fsize
          \<and> slice_size fsize (chunk_start c) (chunk_end c) = chunk_end c - chunk_start c)
     \<and> (\<Sum>c\<leftarrow>make_chunks (Math_ceil_div fsize csize) csize fsize. chunk_end c - chunk_start c) = fsize
     \<and> chunk_end (last (make_chunks (Math_ceil_div fsize csize) csize fsize))
         - chunk_start (last (make_chunks (Math_ceil_div fsize csize) csize fsize))
         = fsize - (Math_ceil_div fsize csize - 1) * csize"
proof (intro conjI ballI impI)
  show "Math_ceil_div fsize csize = \<lceil>real_of_int fsize / real_of_int csize\<rceil>"
    by (simp add: Math_ceil_div_def)
  show "totalChunks (fst (initializeUpload rt e remote c fname fsize mime creator))
            = \<lceil>real_of_int fsize / real_of_int CHUNK_SIZE\<rceil>" if "\<not> isConnected c"
    using that by (simp add: initializeUpload_local Math_ceil_quotient_int Math_ceil_div_def)
  show "DEFAULT_CHUNK_SIZE = CHUNK_SIZE"
    by (simp add: DEFAULT_CHUNK_SIZE_def CHUNK_SIZE_def)
  show "chunkSize (fetchConfig (FetchOk (CHUNK_SIZE, mp)) configRef) = CHUNK_SIZE"
    by (simp add: fetchConfig_def CHUNK_SIZE_def)
  show "length (make_chunks (Math_ceil_div fsize csize) csize fsize) = nat (Math_ceil_div fsize csize)"
    by (simp add: make_chunks_def)
  show "(\<Sum>c\<leftarrow>make_chunks (Math_ceil_div fsize csize) csize fsize. chunk_end c - chunk_start c) = fsize"
    using assms by (rule make_chunks_sum)
  show "chunk_end (last (make_chunks (Math_ceil_div fsize csize) csize fsize))
         - chunk_start (last (make_chunks (Math_ceil_div fsize csize) csize fsize))
         = fsize - (Math_ceil_div fsize csize - 1) * csize"
    by (simp add: make_chunks_last [OF assms])
next
  fix c assume c: "c \<in> set (make_chunks (Math_ceil_div fsize csize) csize fsize)"
  show "0 \<le> chunk_index c" using make_chunks_ranges(1) [OF assms c] .
  show "chunk_index c < Math_ceil_div fsize csize" using make_chunks_ranges(2) [OF assms c] .
  show "chunk_start c = chunk_index c * csize" using make_chunks_ranges(3) [OF assms c] .
  show "chunk_end c = min ((chunk_index c + 1) * csize) fsize" using make_chunks_ranges(4) [OF assms c] .
  show "slice_size fsize (chunk_start c) (chunk_end c) = chunk_end c - chunk_start c"
    using make_chunks_ranges(7) [OF assms c] .
qed

theorem chunk_partition_covers_file_witness:
  "\<forall>rt.
     (0::int) < 12 * 1024 * 1024 \<and> 0 < CHUNK_SIZE
   \<and> Math_ceil_div (12 * 1024 * 1024) CHUNK_SIZE = 3
   \<and> totalChunks (fst (initializeUpload rt \<lparr>clock = (\<lambda>k. 0), randomUUID = ''u1''\<rparr> FetchThrows
        \<lparr>isConnected = False, uploadSessions = Map.empty\<rparr>
        ''clip.mp4'' (12 * 1024 * 1024) ''video/mp4'' ''creator-1'')) = 3
   \<and> make_chunks 3 CHUNK_SIZE (12 * 1024 * 1024) =
       [\<lparr>chunk_index = 0, chunk_start = 0, chunk_end = 5242880\<rparr>,
        \<lparr>chunk_index = 1, chunk_start = 5242880, chunk_end = 10485760\<rparr>,
        \<lparr>chunk_index = 2, chunk_start = 10485760, chunk_end = 12582912\<rparr>]
   \<and> (\<Sum>c\<leftarrow>make_chunks 3 CHUNK_SIZE (12 * 1024 * 1024). chunk_end c - chunk_start c) = 12 * 1024 * 1024
   \<and> chunk_end (last (make_chunks 3 CHUNK_SIZE (12 * 1024 * 1024)))
       - chunk_start (last (make_chunks 3 CHUNK_SIZE (12 * 1024 * 1024))) = 2 * 1024 * 1024"
proof
  fix rt
  have p: "(0::int) < 12 * 1024 * 1024" "0 < CHUNK_SIZE" by (simp_all add: CHUNK_SIZE_def)
  have n: "Math_ceil_div (12 * 1024 * 1024) CHUNK_SIZE = 3"
    by (simp add: Math_ceil_div_int CHUNK_SIZE_def)
  have chunks: "make_chunks 3 CHUNK_SIZE (12 * 1024 * 1024) =
       [\<lparr>chunk_index = 0, chunk_start = 0, chunk_end = 5242880\<rparr>,
        \<lparr>chunk_index = 1, chunk_start = 5242880, chunk_end = 10485760\<rparr>,
        \<lparr>chunk_index = 2, chunk_start = 10485760, chunk_end = 12582912\<rparr>]"
    by (simp add: make_chunks_def upt3 CHUNK_SIZE_def)
  note t = chunk_partition_covers_file [OF p, of "\<lparr>isConnected = False, uploadSessions = Map.empty\<rparr>"
      rt "\<lparr>clock = (\<lambda>k. 0), randomUUID = ''u1''\<rparr>" FetchThrows "''clip.mp4''" "''video/mp4''" "''creator-1''"]
  from t have init: "totalChunks (fst (initializeUpload rt \<lparr>clock = (\<lambda>k. 0), randomUUID = ''u1''\<rparr> FetchThrows
        \<lparr>isConnected = False, uploadSessions = Map.empty\<rparr>
        ''clip.mp4'' (12 * 1024 * 1024) ''video/mp4'' ''creator-1'')) = 3"
    using n by (simp add: Math_ceil_div_def)
  from t have sum: "(\<Sum>c\<leftarrow>make_chunks (Math_ceil_div (12 * 1024 * 1024) CHUNK_SIZE) CHUNK_SIZE (12 * 1024 * 1024).
       chunk_end c - chunk_start c) = 12 * 1024 * 1024"
    by blast
  from t have lst: "chunk_end (last (make_chunks (Math_ceil_div (12 * 1024 * 1024) CHUNK_SIZE) CHUNK_SIZE (12 * 1024 * 1024)))
         - chunk_start (last (make_chunks (Math_ceil_div (12 * 1024 * 1024) CHUNK_SIZE) CHUNK_SIZE (12 * 1024 * 1024)))
         = 12 * 1024 * 1024 - (Math_ceil_div (12 * 1024 * 1024) CHUNK_SIZE - 1) * CHUNK_SIZE"
    by blast
  from lst have lst': "chunk_end (last (make_chunks 3 CHUNK_SIZE (12 * 1024 * 1024)))
       - chunk_start (last (make_chunks 3 CHUNK_SIZE (12 * 1024 * 1024))) = 2 * 1024 * 1024"
    unfolding n by (simp add: CHUNK_SIZE_def)
  from sum have sum': "(\<Sum>c\<leftarrow>make_chunks 3 CHUNK_SIZE (12 * 1024 * 1024). chunk_end c - chunk_start c) = 12 * 1024 * 1024"
    unfolding n .
  from p n init chunks sum' lst'
  show "(0::int) < 12 * 1024 * 1024 \<and> 0 < CHUNK_SIZE
   \<and> Math_ceil_div (12 * 1024 * 1024) CHUNK_SIZE = 3
   \<and> totalChunks (fst (initializeUpload rt \<lparr>clock = (\<lambda>k. 0), randomUUID = ''u1''\<rparr> FetchThrows
        \<lparr>isConnected = False, uploadSessions = Map.empty\<rparr>
        ''clip.mp4'' (12 * 1024 * 1024) ''video/mp4'' ''creator-1'')) = 3
   \<and> make_chunks 3 CHUNK_SIZE (12 * 1024 * 1024) =
       [\<lparr>chunk_index = 0, chunk_start = 0, chunk_end = 5242880\<rparr>,
        \<lparr>chunk_index = 1, chunk_start = 5242880, chunk_end = 10485760\<rparr>,
        \<lparr>chunk_index = 2, chunk_start = 10485760, chunk_end = 12582912\<rparr>]
   \<and> (\<Sum>c\<leftarrow>make_chunks 3 CHUNK_SIZE (12 * 1024 * 1024). chunk_end c - chunk_start c) = 12 * 1024 * 1024
   \<and> chunk_end (last (make_chunks 3 CHUNK_SIZE (12 * 1024 * 1024)))
       - chunk_start (last (make_chunks 3 CHUNK_SIZE (12 * 1024 * 1024))) = 2 * 1024 * 1024"
    by (intro conjI)
qed

section \<open>Chunks that fail on every attempt\<close>

text \<open>
  C3 says that a chunk whose three attempts all fail, by exceptions of the transport or
  by responses that are not \<open>ok\<close>, makes \<open>uploadFile\<close> report a failure and request no
  completion. For a file of one chunk whose every attempt is answered by a response that
  is not \<open>ok\<close>, \<open>uploadChunk\<close> of the client returns \<open>false\<close>, \<open>processChunk\<close> does not look
  at what it returns, and \<open>uploadFile\<close> requests the completion and returns its result.
  With exceptions of the transport in the place of the responses, \<open>uploadChunk\<close> throws
  and \<open>uploadFile\<close> returns \<open>null\<close> without requesting the completion.
\<close>

theorem rejected_chunk_still_completes:
  "client_uploadChunk 0 (\<lambda>k. ResponseNotOk) = Inr False
   \<and> uploadFile FetchThrows
        \<lparr>chunkSize = DEFAULT_CHUNK_SIZE, maxParallelChunks = MAX_PARALLEL_CHUNKS\<rparr>
        (Ok \<lparr>session_uploadId = ''u1'', session_totalChunks = 1\<rparr>)
        (\<lambda>active. 0) (\<lambda>i k. ResponseNotOk) (Ok ''asset-1'') 1
      = Some \<lparr>returned = Some ''asset-1'', caught = None, completeIssued = True\<rparr>
   \<and> client_uploadChunk 0 (\<lambda>k. TransportError) = Inl (ChunkFailed 0)
   \<and> uploadFile FetchThrows
        \<lparr>chunkSize = DEFAULT_CHUNK_SIZE, maxParallelChunks = MAX_PARALLEL_CHUNKS\<rparr>
        (Ok \<lparr>session_uploadId = ''u1'', session_totalChunks = 1\<rparr>)
        (\<lambda>active. 0) (\<lambda>i k. TransportError) (Ok ''asset-1'') 1
      = Some \<lparr>returned = None, caught = Some (ChunkFailed 0), completeIssued = False\<rparr>"
proof -
  have r: "client_uploadChunk 0 (\<lambda>k. ResponseNotOk) = Inr False"
    by (rule client_uploadChunk_rejected) simp_all
  have t: "client_uploadChunk 0 (\<lambda>k. TransportError) = Inl (ChunkFailed 0)"
    by (rule client_uploadChunk_transport) simp_all
  have empty: "pool race net 4 [] [] n = Some (Inr n)" for race net n
    by (subst pool.simps) simp
  have pr: "pool (\<lambda>active. 0) (\<lambda>i k. ResponseNotOk) 4
              [\<lparr>chunk_index = 0, chunk_start = 0, chunk_end = 1\<rparr>] [] 0 = Some (Inr 1)"
    by (subst pool.simps) (simp add: r empty)
  have pt: "pool (\<lambda>active. 0) (\<lambda>i k. TransportError) 4
              [\<lparr>chunk_index = 0, chunk_start = 0, chunk_end = 1\<rparr>] [] 0 = Some (Inl (ChunkFailed 0))"
    by (subst pool.simps) (simp add: t)
  show ?thesis
    by (simp add: r t uploadFile_def fetchConfig_defaults one_chunk pr pt
        client_initializeUpload_def client_completeUpload_def)
qed

section \<open>The forensic signature\<close>

text \<open>
  C7. \<open>generateForensicSignature\<close> is a function of the creator id, the platform id (the
  constant \<open>cougarfanz\<close>) and the timestamp: with a timestamp given, the clock plays no
  role. Its value is \<open>FANZ-\<close> followed by the first sixteen hexadecimal digits, in upper
  case, of the SHA-256 digest of \<open>creatorId|platformId|timestamp\<close>, the timestamp in
  ISO 8601: twenty-one characters in all.
\<close>

theorem forensic_signature_deterministic_format:
  "generateForensicSignature rt e creator (Some t) = generateForensicSignature rt e' creator (Some t)
   \<and> generateForensicSignature rt e creator ts =
       ''FANZ-'' @ toUpperCase (take 16 (digest_hex (sha256 rt
          (creator @ ''|cougarfanz|'' @ toISOString rt (case ts of Some t \<Rightarrow> t | None \<Rightarrow> clock e 0)))))
   \<and> length (generateForensicSignature rt e creator ts) = 21
   \<and> take 5 (generateForensicSignature rt e creator ts) = ''FANZ-''
   \<and> length (drop 5 (generateForensicSignature rt e creator ts)) = 16
   \<and> set (drop 5 (generateForensicSignature rt e creator ts)) \<subseteq> set ''0123456789ABCDEF''"
proof -
  let ?h = "digest_hex (sha256 rt (creator @ ''|cougarfanz|'' @ toISOString rt (case ts of Some t \<Rightarrow> t | None \<Rightarrow> clock e 0)))"
  have sig: "generateForensicSignature rt e creator ts = ''FANZ-'' @ toUpperCase (take 16 ?h)"
    by (simp add: generateForensicSignature_def Let_def platformId_const_def substring0_def)
  have len: "length (toUpperCase (take 16 ?h)) = 16"
    by (simp add: toUpperCase_def length_digest_hex)
  have "set (take 16 ?h) \<subseteq> set ''0123456789abcdef''"
    using set_take_subset set_digest_hex by (rule subset_trans)
  then have up: "set (toUpperCase (take 16 ?h)) \<subseteq> set ''0123456789ABCDEF''"
    unfolding toUpperCase_def using toUpperCase_char_hex by (auto simp del: set_simps)
  have det: "generateForensicSignature rt e creator (Some t) = generateForensicSignature rt e' creator (Some t)"
    by (simp add: generateForensicSignature_def)
  show ?thesis
    unfolding sig using len up det by simp
qed

end
